theory Spec2Isabelle
  imports Complex_Main
begin

section \<open>Batch conversion scripts: docling, marker, markitdown, pymupdf\<close>

text \<open>
  The repository holds four scripts, \<^verbatim>\<open>docling/main.py\<close>, \<^verbatim>\<open>marker/main.py\<close>,
  \<^verbatim>\<open>markitdown/main.py\<close> and \<^verbatim>\<open>pymupdf/main.py\<close>, with the same functions
  \<^verbatim>\<open>process_folder_source\<close>, \<^verbatim>\<open>process_file_source\<close>, \<^verbatim>\<open>process_url_source\<close>,
  \<^verbatim>\<open>convert_from_sources\<close> and \<^verbatim>\<open>main\<close>. The embedding has one definition per
  function, with the script as a parameter; where the four texts differ (the allow-list, the
  output directory, the extension of marker, the size read of markitdown, the missing URL
  branch of pymupdf) the definition branches on the script.
\<close>

subsection \<open>Strings\<close>

text \<open>
  \<^verbatim>\<open>str.lower()\<close>, on the ASCII letters. The allow-lists hold ASCII strings without the
  letter k, so no other character is lowered into one of them.
\<close>

definition lower_char :: "char \<Rightarrow> char" where
  "lower_char c =
     (case map_of (zip ''ABCDEFGHIJKLMNOPQRSTUVWXYZ'' ''abcdefghijklmnopqrstuvwxyz'') c of
        Some d \<Rightarrow> d
      | None \<Rightarrow> c)"

definition lower :: "string \<Rightarrow> string" where
  "lower s = map lower_char s"

text \<open>\<^verbatim>\<open>s.split(c)\<close>: the pieces between the occurrences of \<open>c\<close>, empty ones included.\<close>

fun split_sep :: "char \<Rightarrow> string \<Rightarrow> string list" where
  "split_sep c [] = [[]]"
| "split_sep c (x # xs) =
     (if x = c then [] # split_sep c xs
      else (case split_sep c xs of
              [] \<Rightarrow> [[x]]
            | w # ws \<Rightarrow> (x # w) # ws))"

text \<open>\<^verbatim>\<open>s.rfind(c)\<close>: the index of the last occurrence; \<open>None\<close> stands for Python's -1.\<close>

fun rfind :: "char \<Rightarrow> string \<Rightarrow> nat option" where
  "rfind c [] = None"
| "rfind c (x # xs) =
     (case rfind c xs of
        Some i \<Rightarrow> Some (Suc i)
      | None \<Rightarrow> (if x = c then Some 0 else None))"

subsection \<open>Paths (pathlib, POSIX flavour)\<close>

text \<open>
  A \<^verbatim>\<open>pathlib.Path\<close> is its root (\<open>''''\<close> for a relative path, \<open>''/''\<close> or
  \<open>''//''\<close> otherwise) and its parts below the root.
\<close>

datatype path = Path (anchor: string) (parts: "string list")

definition path_root :: "string \<Rightarrow> string" where
  "path_root s =
     (if take 2 s = ''//'' \<and> take 3 s \<noteq> ''///'' then ''//''
      else if take 1 s = ''/'' then ''/''
      else '''')"

text \<open>\<^verbatim>\<open>Path(s)\<close>: empty segments and \<open>.\<close> segments are dropped.\<close>

definition parse_path :: "string \<Rightarrow> path" where
  "parse_path s =
     Path (path_root s) (filter (\<lambda>p. p \<noteq> [] \<and> p \<noteq> ''.'') (split_sep CHR ''/'' s))"

text \<open>\<^verbatim>\<open>p / q\<close>: an absolute right operand replaces the left one.\<close>

definition joinpath :: "path \<Rightarrow> path \<Rightarrow> path" where
  "joinpath p q =
     (if anchor q \<noteq> [] then q else Path (anchor p) (parts p @ parts q))"

text \<open>\<^verbatim>\<open>p.name\<close>: the last part, the empty string when there is none.\<close>

definition name :: "path \<Rightarrow> string" where
  "name p = (if parts p = [] then [] else last (parts p))"

text \<open>
  \<^verbatim>\<open>p.suffix\<close> (Python 3.11, which the marker script names): from the last dot of the
  name on, when that dot is neither the first nor the last character.
\<close>

definition suffix_of :: "string \<Rightarrow> string" where
  "suffix_of nm =
     (case rfind CHR ''.'' nm of
        Some i \<Rightarrow> (if 0 < i \<and> Suc i < length nm then drop i nm else [])
      | None \<Rightarrow> [])"

definition suffix :: "path \<Rightarrow> string" where
  "suffix p = suffix_of (name p)"

text \<open>\<^verbatim>\<open>p.stem\<close>: the name without its suffix.\<close>

definition stem_of :: "string \<Rightarrow> string" where
  "stem_of nm = take (length nm - length (suffix_of nm)) nm"

definition stem :: "path \<Rightarrow> string" where
  "stem p = stem_of (name p)"

text \<open>
  \<^verbatim>\<open>p.with_suffix(s)\<close>: \<open>None\<close> is the \<^verbatim>\<open>ValueError\<close> raised for a suffix with a
  separator, a non-empty suffix that does not start with a dot or is the dot alone, and for
  a path with an empty name.
\<close>

definition with_suffix :: "path \<Rightarrow> string \<Rightarrow> path option" where
  "with_suffix p s =
     (if CHR ''/'' \<in> set s then None
      else if (s \<noteq> [] \<and> take 1 s \<noteq> ''.'') \<or> s = ''.'' then None
      else if name p = [] then None
      else Some (Path (anchor p) (butlast (parts p) @ [stem_of (name p) @ s])))"

subsection \<open>Configuration constants\<close>

datatype tool = Docling | Marker | Markitdown | Pymupdf

text \<open>
  A script is the tool it drives and, for marker, the value of its \<^verbatim>\<open>OUTPUT_FORMAT\<close>
  constant (\<^verbatim>\<open>"markdown"\<close> in the source, which names \<^verbatim>\<open>"json"\<close> and
  \<^verbatim>\<open>"html"\<close> as the other settings). The other three scripts do not read it.
\<close>

record script =
  tool :: tool
  OUTPUT_FORMAT :: string

definition OUTPUT_DIR_NAME :: string where
  "OUTPUT_DIR_NAME = ''output''"

definition SUPPORTED_EXTENSIONS :: "tool \<Rightarrow> string set" where
  "SUPPORTED_EXTENSIONS t =
     (case t of
        Docling \<Rightarrow>
          {''.pdf'', ''.docx'', ''.pptx'', ''.xlsx'', ''.xls'', ''.html'', ''.htm'',
           ''.txt'', ''.csv'',
           ''.jpg'', ''.jpeg'', ''.png'', ''.tiff'', ''.bmp'',
           ''.wav'', ''.mp3'', ''.m4a'',
           ''.vtt''}
      | Marker \<Rightarrow>
          {''.pdf'', ''.docx'', ''.pptx'', ''.xlsx'', ''.xls'', ''.html'', ''.htm'',
           ''.epub'',
           ''.png'', ''.jpg'', ''.jpeg'', ''.tiff'', ''.bmp'', ''.gif''}
      | Markitdown \<Rightarrow>
          {''.pdf'', ''.docx'', ''.xlsx'', ''.xls'', ''.txt'', ''.csv'', ''.html'', ''.htm'',
           ''.epub'', ''.rtf'', ''.odt'',
           ''.jpg'', ''.jpeg'', ''.png'', ''.gif'', ''.bmp'', ''.tiff'',
           ''.wav'', ''.mp3'', ''.m4a'',
           ''.mp4'', ''.mov'', ''.avi''}
      | Pymupdf \<Rightarrow> {''.pdf''})"

definition MAX_FILE_SIZE_MB :: real where
  "MAX_FILE_SIZE_MB = 50"

text \<open>
  \<^verbatim>\<open>st_size / (1024 * 1024)\<close>. Python's true division of an integer by \<open>2 ^ 20\<close> is
  exact below \<open>2 ^ 53\<close> and monotone above, so the comparison with 50 on floats is the
  comparison on the exact quotient.
\<close>

definition file_size_mb :: "nat \<Rightarrow> real" where
  "file_size_mb n = real n / (1024 * 1024)"

text \<open>The directory of \<^verbatim>\<open>setup_output_directory\<close>: \<^verbatim>\<open>Path("<tool>") / OUTPUT_DIR_NAME\<close>.\<close>

definition tool_dir :: "tool \<Rightarrow> string" where
  "tool_dir t =
     (case t of
        Docling \<Rightarrow> ''docling''
      | Marker \<Rightarrow> ''marker''
      | Markitdown \<Rightarrow> ''markitdown''
      | Pymupdf \<Rightarrow> ''pymupdf'')"

definition setup_output_directory :: "script \<Rightarrow> path" where
  "setup_output_directory s = joinpath (parse_path (tool_dir (tool s))) (parse_path OUTPUT_DIR_NAME)"

text \<open>
  The extension of the output file: \<^verbatim>\<open>'.md'\<close> in docling, markitdown and pymupdf; in marker
  \<^verbatim>\<open>".md"\<close> when \<^verbatim>\<open>OUTPUT_FORMAT == "markdown"\<close> and \<^verbatim>\<open>f".{OUTPUT_FORMAT}"\<close>
  otherwise.
\<close>

definition extension :: "script \<Rightarrow> string" where
  "extension s =
     (if tool s = Marker then
        (if OUTPUT_FORMAT s = ''markdown'' then ''.md'' else ''.'' @ OUTPUT_FORMAT s)
      else ''.md'')"

subsection \<open>Sources and the world outside the script\<close>

text \<open>
  An entry of \<^verbatim>\<open>SOURCES\<close>. \<^verbatim>\<open>"path"\<close> is read with \<^verbatim>\<open>source_config["path"]\<close> and is
  there in every entry; \<^verbatim>\<open>"type"\<close>, \<^verbatim>\<open>"name"\<close> and \<^verbatim>\<open>"recursive"\<close> are read with
  \<^verbatim>\<open>.get\<close> and may be missing.
\<close>

record source_config =
  sc_type :: "string option"
  sc_path :: string
  sc_name :: "string option"
  sc_recursive :: "bool option"

text \<open>
  What a traversal yields: the path relative to the folder, with the answers of
  \<^verbatim>\<open>is_file()\<close> and \<^verbatim>\<open>stat().st_size\<close> for it (a \<^verbatim>\<open>stat\<close> that follows a
  successful \<^verbatim>\<open>is_file\<close> on the same path is taken to succeed).
\<close>

record dir_entry =
  rel :: "string list"
  is_file :: bool
  st_size :: nat

text \<open>What the conversion entry point is called on.\<close>

datatype conv_arg =
    FromPath path      \<comment> \<open>\<^verbatim>\<open>str(file_path)\<close>\<close>
  | FromStream path    \<comment> \<open>markitdown's \<^verbatim>\<open>BytesIO\<close> of the bytes read, named by the path\<close>
  | FromUrl string

text \<open>
  The world answers the calls that leave the script. A call that raises answers
  \<open>None\<close> (or \<open>False\<close>); the class of what a conversion call raises is read apart
  from the world, further below.
  \<^item> \<open>convert\<close>: the library's conversion with the export of its result to text
    (\<^verbatim>\<open>converter.convert\<close> and \<^verbatim>\<open>export_to_markdown\<close>; \<^verbatim>\<open>converter(...)\<close> and
    \<^verbatim>\<open>text_from_rendered\<close> or \<^verbatim>\<open>str\<close>; \<^verbatim>\<open>md.convert\<close> and \<^verbatim>\<open>text_content\<close>;
    \<^verbatim>\<open>extract_text_from_pdf\<close>).
  \<^item> \<open>stat_size\<close>: \<^verbatim>\<open>file_path.stat().st_size\<close>; \<open>read_bytes\<close>: the length of what
    \<^verbatim>\<open>open(file_path, 'rb').read()\<close> returns.
  \<^item> \<open>write_file\<close>: \<^verbatim>\<open>mkdir(parents=True, exist_ok=True)\<close> of the parent, then
    \<^verbatim>\<open>open\<close> and \<^verbatim>\<open>write\<close>.
  \<^item> \<open>converter_ok\<close>: whether the constructor of the converter returns.
  Printing is taken to succeed.
\<close>

record world =
  path_exists :: "path \<Rightarrow> bool"
  rglob :: "path \<Rightarrow> dir_entry list"
  glob :: "path \<Rightarrow> dir_entry list"
  stat_size :: "path \<Rightarrow> nat option"
  read_bytes :: "path \<Rightarrow> nat option"
  convert :: "conv_arg \<Rightarrow> string option"
  write_file :: "path \<Rightarrow> string \<Rightarrow> bool"
  converter_ok :: bool

text \<open>
  The calls a function made, in order: each reading of a size for the limit, each call of
  the conversion entry point, each output file written.
\<close>

datatype event =
    SizeCheck path
  | Convert conv_arg
  | WriteFile path string

type_synonym counts = "nat \<times> nat \<times> nat"

subsection \<open>\<^verbatim>\<open>process_file_source\<close>\<close>

text \<open>
  The size is read inside the \<^verbatim>\<open>try\<close>: by \<^verbatim>\<open>stat\<close> in docling, marker and pymupdf, by
  reading the whole file in markitdown.
\<close>

definition read_size :: "script \<Rightarrow> world \<Rightarrow> path \<Rightarrow> nat option" where
  "read_size s w file_path =
     (if tool s = Markitdown then read_bytes w file_path else stat_size w file_path)"

definition file_arg :: "script \<Rightarrow> path \<Rightarrow> conv_arg" where
  "file_arg s file_path =
     (if tool s = Markitdown then FromStream file_path else FromPath file_path)"

definition process_file_source ::
  "script \<Rightarrow> world \<Rightarrow> source_config \<Rightarrow> path \<Rightarrow> counts \<times> event list" where
  "process_file_source s w source_config output_dir =
     (let file_path = parse_path (sc_path source_config);
          source_name = (case sc_name source_config of Some n \<Rightarrow> n | None \<Rightarrow> stem file_path)
      in
      if \<not> path_exists w file_path then ((0, 1, 0), [])
      else if lower (suffix file_path) \<notin> SUPPORTED_EXTENSIONS (tool s) then ((0, 1, 0), [])
      else
        (case read_size s w file_path of
           None \<Rightarrow> ((0, 1, 0), [SizeCheck file_path])
         | Some n \<Rightarrow>
             if file_size_mb n > MAX_FILE_SIZE_MB then ((0, 0, 1), [SizeCheck file_path])
             else
               (case convert w (file_arg s file_path) of
                  None \<Rightarrow> ((0, 1, 0), [SizeCheck file_path, Convert (file_arg s file_path)])
                | Some content \<Rightarrow>
                    let output_file_path =
                          joinpath (joinpath output_dir (parse_path ''single_files''))
                                   (parse_path (source_name @ extension s))
                    in
                    if write_file w output_file_path content then
                      ((1, 0, 0),
                       [SizeCheck file_path, Convert (file_arg s file_path),
                        WriteFile output_file_path content])
                    else
                      ((0, 1, 0), [SizeCheck file_path, Convert (file_arg s file_path)]))))"

subsection \<open>\<^verbatim>\<open>process_folder_source\<close>\<close>

text \<open>The three counters of the loop, with the calls made so far.\<close>

record tally =
  converted_count :: nat
  failed_count :: nat
  skipped_count :: nat
  calls :: "event list"

text \<open>
  The body of \<^verbatim>\<open>for file_path in file_iterator\<close>. \<open>Path [] (rel e)\<close> is
  \<^verbatim>\<open>file_path.relative_to(folder_path)\<close>. The size check stands before the \<^verbatim>\<open>try\<close>;
  everything from the conversion call to the write stands inside it.
\<close>

definition folder_step ::
  "script \<Rightarrow> world \<Rightarrow> path \<Rightarrow> path \<Rightarrow> string \<Rightarrow> dir_entry \<Rightarrow> tally \<Rightarrow> tally" where
  "folder_step s w folder_path output_dir source_name e st =
     (let file_path = joinpath folder_path (Path [] (rel e)) in
      if is_file e \<and> lower (suffix file_path) \<in> SUPPORTED_EXTENSIONS (tool s) then
        if file_size_mb (st_size e) > MAX_FILE_SIZE_MB then
          st\<lparr>skipped_count := skipped_count st + 1,
             calls := calls st @ [SizeCheck file_path]\<rparr>
        else
          (case convert w (FromPath file_path) of
             None \<Rightarrow>
               st\<lparr>failed_count := failed_count st + 1,
                  calls := calls st @ [SizeCheck file_path, Convert (FromPath file_path)]\<rparr>
           | Some content \<Rightarrow>
               (case with_suffix (Path [] (rel e)) (extension s) of
                  None \<Rightarrow>
                    st\<lparr>failed_count := failed_count st + 1,
                       calls := calls st @ [SizeCheck file_path, Convert (FromPath file_path)]\<rparr>
                | Some relative_md \<Rightarrow>
                    let output_file_path =
                          joinpath (joinpath output_dir (parse_path source_name)) relative_md
                    in
                    if write_file w output_file_path content then
                      st\<lparr>converted_count := converted_count st + 1,
                         calls := calls st @ [SizeCheck file_path, Convert (FromPath file_path),
                                              WriteFile output_file_path content]\<rparr>
                    else
                      st\<lparr>failed_count := failed_count st + 1,
                         calls := calls st @ [SizeCheck file_path,
                                              Convert (FromPath file_path)]\<rparr>))
      else st)"

primrec folder_loop ::
  "script \<Rightarrow> world \<Rightarrow> path \<Rightarrow> path \<Rightarrow> string \<Rightarrow> dir_entry list \<Rightarrow> tally \<Rightarrow> tally" where
  "folder_loop s w folder_path output_dir source_name [] st = st"
| "folder_loop s w folder_path output_dir source_name (e # es) st =
     folder_loop s w folder_path output_dir source_name es
       (folder_step s w folder_path output_dir source_name e st)"

definition folder_name :: "source_config \<Rightarrow> string" where
  "folder_name source_config =
     (case sc_name source_config of
        Some n \<Rightarrow> n
      | None \<Rightarrow> name (parse_path (sc_path source_config)))"

definition file_iterator :: "world \<Rightarrow> source_config \<Rightarrow> dir_entry list" where
  "file_iterator w source_config =
     (let folder_path = parse_path (sc_path source_config);
          recursive = (case sc_recursive source_config of Some b \<Rightarrow> b | None \<Rightarrow> True)
      in if recursive then rglob w folder_path else glob w folder_path)"

definition process_folder_source ::
  "script \<Rightarrow> world \<Rightarrow> source_config \<Rightarrow> path \<Rightarrow> counts \<times> event list" where
  "process_folder_source s w source_config output_dir =
     (let folder_path = parse_path (sc_path source_config);
          source_name = folder_name source_config
      in
      if \<not> path_exists w folder_path then ((0, 0, 0), [])
      else
        let st = folder_loop s w folder_path output_dir source_name
                   (file_iterator w source_config)
                   \<lparr>converted_count = 0, failed_count = 0, skipped_count = 0, calls = []\<rparr>
        in ((converted_count st, failed_count st, skipped_count st), calls st))"

subsection \<open>\<^verbatim>\<open>process_url_source\<close>\<close>

text \<open>
  Defined in docling, marker and markitdown. The pymupdf script has no such function; the
  dispatch below never reaches this definition for it.
\<close>

definition process_url_source ::
  "script \<Rightarrow> world \<Rightarrow> source_config \<Rightarrow> path \<Rightarrow> counts \<times> event list" where
  "process_url_source s w source_config output_dir =
     (let url = sc_path source_config;
          source_name = (case sc_name source_config of Some n \<Rightarrow> n | None \<Rightarrow> ''web_content'')
      in
      case convert w (FromUrl url) of
        None \<Rightarrow> ((0, 1, 0), [Convert (FromUrl url)])
      | Some content \<Rightarrow>
          let output_file_path =
                joinpath (joinpath output_dir (parse_path ''urls''))
                         (parse_path (source_name @ extension s))
          in
          if write_file w output_file_path content then
            ((1, 0, 0), [Convert (FromUrl url), WriteFile output_file_path content])
          else
            ((0, 1, 0), [Convert (FromUrl url)]))"

subsection \<open>\<^verbatim>\<open>convert_from_sources\<close> and \<^verbatim>\<open>main\<close>\<close>

datatype source_kind = FolderSource | FileSource | UrlSource

text \<open>
  The \<^verbatim>\<open>if\<close>/\<^verbatim>\<open>elif\<close> chain on \<^verbatim>\<open>source_config.get("type")\<close>. In pymupdf the chain
  has the folder and file cases only. \<open>None\<close> is the final \<^verbatim>\<open>else\<close>, which prints and
  continues.
\<close>

definition dispatch :: "script \<Rightarrow> source_config \<Rightarrow> source_kind option" where
  "dispatch s source_config =
     (let source_type = sc_type source_config in
      if source_type = Some ''folder'' then Some FolderSource
      else if source_type = Some ''file'' then Some FileSource
      else if tool s \<noteq> Pymupdf \<and> source_type = Some ''url'' then Some UrlSource
      else None)"

definition process_source ::
  "script \<Rightarrow> world \<Rightarrow> path \<Rightarrow> source_kind \<Rightarrow> source_config \<Rightarrow> counts \<times> event list" where
  "process_source s w output_dir k source_config =
     (case k of
        FolderSource \<Rightarrow> process_folder_source s w source_config output_dir
      | FileSource \<Rightarrow> process_file_source s w source_config output_dir
      | UrlSource \<Rightarrow> process_url_source s w source_config output_dir)"

record totals =
  total_converted :: nat
  total_failed :: nat
  total_skipped :: nat
  trace :: "event list"

definition source_step :: "script \<Rightarrow> world \<Rightarrow> path \<Rightarrow> source_config \<Rightarrow> totals \<Rightarrow> totals" where
  "source_step s w output_dir source_config tot =
     (case dispatch s source_config of
        None \<Rightarrow> tot
      | Some k \<Rightarrow>
          (case process_source s w output_dir k source_config of
             ((converted, failed, skipped), evs) \<Rightarrow>
               tot\<lparr>total_converted := total_converted tot + converted,
                   total_failed := total_failed tot + failed,
                   total_skipped := total_skipped tot + skipped,
                   trace := trace tot @ evs\<rparr>))"

primrec sources_loop ::
  "script \<Rightarrow> world \<Rightarrow> path \<Rightarrow> source_config list \<Rightarrow> totals \<Rightarrow> totals" where
  "sources_loop s w output_dir [] tot = tot"
| "sources_loop s w output_dir (source_config # rest) tot =
     sources_loop s w output_dir rest (source_step s w output_dir source_config tot)"

definition convert_from_sources ::
  "script \<Rightarrow> world \<Rightarrow> source_config list \<Rightarrow> path \<Rightarrow> counts \<times> event list" where
  "convert_from_sources s w sources output_dir =
     (let tot = sources_loop s w output_dir sources
                  \<lparr>total_converted = 0, total_failed = 0, total_skipped = 0, trace = []\<rparr>
      in ((total_converted tot, total_failed tot, total_skipped tot), trace tot))"

text \<open>
  \<^verbatim>\<open>main\<close> ends in \<^verbatim>\<open>sys.exit(1)\<close> when \<^verbatim>\<open>SOURCES\<close> is empty or the converter cannot
  be built (pymupdf builds none), and otherwise prints the summary: the total processed
  count and the three counts.
\<close>

datatype run = Exit nat | Summary nat nat nat nat

definition main :: "script \<Rightarrow> world \<Rightarrow> source_config list \<Rightarrow> run" where
  "main s w SOURCES =
     (if SOURCES = [] then Exit 1
      else
        let output_dir = setup_output_directory s in
        if tool s \<noteq> Pymupdf \<and> \<not> converter_ok w then Exit 1
        else
          (case fst (convert_from_sources s w SOURCES output_dir) of
             (converted, failed, skipped) \<Rightarrow>
               let total_processed = converted + failed + skipped
               in Summary total_processed converted failed skipped))"

subsection \<open>Exceptions that \<^verbatim>\<open>except Exception\<close> does not catch\<close>

text \<open>
  Every handler of the four scripts is \<^verbatim>\<open>except Exception as e\<close>. The class of what a call
  raises decides whether the handler takes it: an instance of \<^verbatim>\<open>Exception\<close> is caught; a
  \<^verbatim>\<open>SystemExit\<close>, a \<^verbatim>\<open>KeyboardInterrupt\<close> or a \<^verbatim>\<open>GeneratorExit\<close> (the other classes
  below \<^verbatim>\<open>BaseException\<close>) is not, and leaves the function.
\<close>

datatype exc = Exception_class | SystemExit | KeyboardInterrupt | GeneratorExit

definition except_Exception :: "exc \<Rightarrow> bool" where
  "except_Exception x =
     (case x of
        Exception_class \<Rightarrow> True
      | SystemExit \<Rightarrow> False
      | KeyboardInterrupt \<Rightarrow> False
      | GeneratorExit \<Rightarrow> False)"

text \<open>A call returns a value, or an exception leaves it.\<close>

datatype 'a result = Returns 'a | Propagates exc

text \<open>
  The functions above take the world's word \<open>convert w a = None\<close> for a raise that the
  handler catches. The functions below read the same sources with the class of the raise
  made explicit: \<open>cls a\<close> is the class of what the conversion call on \<open>a\<close> raises when
  \<open>convert w a = None\<close>. They return \<open>Propagates\<close> where the exception passes the handler
  and ends the function, its callers and the run.
\<close>

definition folder_step_exc ::
  "script \<Rightarrow> world \<Rightarrow> (conv_arg \<Rightarrow> exc) \<Rightarrow> path \<Rightarrow> path \<Rightarrow> string \<Rightarrow> dir_entry \<Rightarrow> tally
     \<Rightarrow> tally result" where
  "folder_step_exc s w cls folder_path output_dir source_name e st =
     (let file_path = joinpath folder_path (Path [] (rel e)) in
      if is_file e \<and> lower (suffix file_path) \<in> SUPPORTED_EXTENSIONS (tool s) then
        if file_size_mb (st_size e) > MAX_FILE_SIZE_MB then
          Returns (st\<lparr>skipped_count := skipped_count st + 1,
                      calls := calls st @ [SizeCheck file_path]\<rparr>)
        else
          (case convert w (FromPath file_path) of
             None \<Rightarrow>
               if except_Exception (cls (FromPath file_path)) then
                 Returns (st\<lparr>failed_count := failed_count st + 1,
                             calls := calls st @ [SizeCheck file_path,
                                                  Convert (FromPath file_path)]\<rparr>)
               else Propagates (cls (FromPath file_path))
           | Some content \<Rightarrow>
               (case with_suffix (Path [] (rel e)) (extension s) of
                  None \<Rightarrow>
                    Returns (st\<lparr>failed_count := failed_count st + 1,
                                calls := calls st @ [SizeCheck file_path,
                                                     Convert (FromPath file_path)]\<rparr>)
                | Some relative_md \<Rightarrow>
                    let output_file_path =
                          joinpath (joinpath output_dir (parse_path source_name)) relative_md
                    in
                    if write_file w output_file_path content then
                      Returns (st\<lparr>converted_count := converted_count st + 1,
                                  calls := calls st @ [SizeCheck file_path,
                                                       Convert (FromPath file_path),
                                                       WriteFile output_file_path content]\<rparr>)
                    else
                      Returns (st\<lparr>failed_count := failed_count st + 1,
                                  calls := calls st @ [SizeCheck file_path,
                                                       Convert (FromPath file_path)]\<rparr>)))
      else Returns st)"

primrec folder_loop_exc ::
  "script \<Rightarrow> world \<Rightarrow> (conv_arg \<Rightarrow> exc) \<Rightarrow> path \<Rightarrow> path \<Rightarrow> string \<Rightarrow> dir_entry list \<Rightarrow> tally
     \<Rightarrow> tally result" where
  "folder_loop_exc s w cls folder_path output_dir source_name [] st = Returns st"
| "folder_loop_exc s w cls folder_path output_dir source_name (e # es) st =
     (case folder_step_exc s w cls folder_path output_dir source_name e st of
        Propagates x \<Rightarrow> Propagates x
      | Returns st' \<Rightarrow> folder_loop_exc s w cls folder_path output_dir source_name es st')"

definition process_folder_source_exc ::
  "script \<Rightarrow> world \<Rightarrow> (conv_arg \<Rightarrow> exc) \<Rightarrow> source_config \<Rightarrow> path
     \<Rightarrow> (counts \<times> event list) result" where
  "process_folder_source_exc s w cls source_config output_dir =
     (let folder_path = parse_path (sc_path source_config);
          source_name = folder_name source_config
      in
      if \<not> path_exists w folder_path then Returns ((0, 0, 0), [])
      else
        (case folder_loop_exc s w cls folder_path output_dir source_name
                (file_iterator w source_config)
                \<lparr>converted_count = 0, failed_count = 0, skipped_count = 0, calls = []\<rparr> of
           Propagates x \<Rightarrow> Propagates x
         | Returns st \<Rightarrow>
             Returns ((converted_count st, failed_count st, skipped_count st), calls st)))"

definition process_file_source_exc ::
  "script \<Rightarrow> world \<Rightarrow> (conv_arg \<Rightarrow> exc) \<Rightarrow> source_config \<Rightarrow> path
     \<Rightarrow> (counts \<times> event list) result" where
  "process_file_source_exc s w cls source_config output_dir =
     (let file_path = parse_path (sc_path source_config);
          source_name = (case sc_name source_config of Some n \<Rightarrow> n | None \<Rightarrow> stem file_path)
      in
      if \<not> path_exists w file_path then Returns ((0, 1, 0), [])
      else if lower (suffix file_path) \<notin> SUPPORTED_EXTENSIONS (tool s) then
        Returns ((0, 1, 0), [])
      else
        (case read_size s w file_path of
           None \<Rightarrow> Returns ((0, 1, 0), [SizeCheck file_path])
         | Some n \<Rightarrow>
             if file_size_mb n > MAX_FILE_SIZE_MB then Returns ((0, 0, 1), [SizeCheck file_path])
             else
               (case convert w (file_arg s file_path) of
                  None \<Rightarrow>
                    if except_Exception (cls (file_arg s file_path)) then
                      Returns ((0, 1, 0),
                               [SizeCheck file_path, Convert (file_arg s file_path)])
                    else Propagates (cls (file_arg s file_path))
                | Some content \<Rightarrow>
                    let output_file_path =
                          joinpath (joinpath output_dir (parse_path ''single_files''))
                                   (parse_path (source_name @ extension s))
                    in
                    if write_file w output_file_path content then
                      Returns ((1, 0, 0),
                               [SizeCheck file_path, Convert (file_arg s file_path),
                                WriteFile output_file_path content])
                    else
                      Returns ((0, 1, 0),
                               [SizeCheck file_path, Convert (file_arg s file_path)]))))"

definition process_url_source_exc ::
  "script \<Rightarrow> world \<Rightarrow> (conv_arg \<Rightarrow> exc) \<Rightarrow> source_config \<Rightarrow> path
     \<Rightarrow> (counts \<times> event list) result" where
  "process_url_source_exc s w cls source_config output_dir =
     (let url = sc_path source_config;
          source_name = (case sc_name source_config of Some n \<Rightarrow> n | None \<Rightarrow> ''web_content'')
      in
      case convert w (FromUrl url) of
        None \<Rightarrow>
          if except_Exception (cls (FromUrl url)) then Returns ((0, 1, 0), [Convert (FromUrl url)])
          else Propagates (cls (FromUrl url))
      | Some content \<Rightarrow>
          let output_file_path =
                joinpath (joinpath output_dir (parse_path ''urls''))
                         (parse_path (source_name @ extension s))
          in
          if write_file w output_file_path content then
            Returns ((1, 0, 0), [Convert (FromUrl url), WriteFile output_file_path content])
          else
            Returns ((0, 1, 0), [Convert (FromUrl url)]))"

definition process_source_exc ::
  "script \<Rightarrow> world \<Rightarrow> (conv_arg \<Rightarrow> exc) \<Rightarrow> path \<Rightarrow> source_kind \<Rightarrow> source_config
     \<Rightarrow> (counts \<times> event list) result" where
  "process_source_exc s w cls output_dir k source_config =
     (case k of
        FolderSource \<Rightarrow> process_folder_source_exc s w cls source_config output_dir
      | FileSource \<Rightarrow> process_file_source_exc s w cls source_config output_dir
      | UrlSource \<Rightarrow> process_url_source_exc s w cls source_config output_dir)"

definition source_step_exc ::
  "script \<Rightarrow> world \<Rightarrow> (conv_arg \<Rightarrow> exc) \<Rightarrow> path \<Rightarrow> source_config \<Rightarrow> totals \<Rightarrow> totals result" where
  "source_step_exc s w cls output_dir source_config tot =
     (case dispatch s source_config of
        None \<Rightarrow> Returns tot
      | Some k \<Rightarrow>
          (case process_source_exc s w cls output_dir k source_config of
             Propagates x \<Rightarrow> Propagates x
           | Returns ((converted, failed, skipped), evs) \<Rightarrow>
               Returns (tot\<lparr>total_converted := total_converted tot + converted,
                           total_failed := total_failed tot + failed,
                           total_skipped := total_skipped tot + skipped,
                           trace := trace tot @ evs\<rparr>)))"

primrec sources_loop_exc ::
  "script \<Rightarrow> world \<Rightarrow> (conv_arg \<Rightarrow> exc) \<Rightarrow> path \<Rightarrow> source_config list \<Rightarrow> totals
     \<Rightarrow> totals result" where
  "sources_loop_exc s w cls output_dir [] tot = Returns tot"
| "sources_loop_exc s w cls output_dir (source_config # rest) tot =
     (case source_step_exc s w cls output_dir source_config tot of
        Propagates x \<Rightarrow> Propagates x
      | Returns tot' \<Rightarrow> sources_loop_exc s w cls output_dir rest tot')"

definition convert_from_sources_exc ::
  "script \<Rightarrow> world \<Rightarrow> (conv_arg \<Rightarrow> exc) \<Rightarrow> source_config list \<Rightarrow> path
     \<Rightarrow> (counts \<times> event list) result" where
  "convert_from_sources_exc s w cls sources output_dir =
     (case sources_loop_exc s w cls output_dir sources
             \<lparr>total_converted = 0, total_failed = 0, total_skipped = 0, trace = []\<rparr> of
        Propagates x \<Rightarrow> Propagates x
      | Returns tot \<Rightarrow>
          Returns ((total_converted tot, total_failed tot, total_skipped tot), trace tot))"

text \<open>
  \<^verbatim>\<open>main\<close> has no handler around \<^verbatim>\<open>convert_from_sources\<close>: an exception that leaves it
  ends the run before the summary.
\<close>

definition main_exc :: "script \<Rightarrow> world \<Rightarrow> (conv_arg \<Rightarrow> exc) \<Rightarrow> source_config list \<Rightarrow> run result" where
  "main_exc s w cls SOURCES =
     (if SOURCES = [] then Returns (Exit 1)
      else
        let output_dir = setup_output_directory s in
        if tool s \<noteq> Pymupdf \<and> \<not> converter_ok w then Returns (Exit 1)
        else
          (case convert_from_sources_exc s w cls SOURCES output_dir of
             Propagates x \<Rightarrow> Propagates x
           | Returns ((converted, failed, skipped), evs) \<Rightarrow>
               let total_processed = converted + failed + skipped
               in Returns (Summary total_processed converted failed skipped)))"

subsection \<open>Reading the calls and the counters\<close>

fun conversion_calls :: "event list \<Rightarrow> conv_arg list" where
  "conversion_calls [] = []"
| "conversion_calls (Convert a # evs) = a # conversion_calls evs"
| "conversion_calls (SizeCheck p # evs) = conversion_calls evs"
| "conversion_calls (WriteFile p c # evs) = conversion_calls evs"

fun size_checks :: "event list \<Rightarrow> path list" where
  "size_checks [] = []"
| "size_checks (SizeCheck p # evs) = p # size_checks evs"
| "size_checks (Convert a # evs) = size_checks evs"
| "size_checks (WriteFile p c # evs) = size_checks evs"

fun written_paths :: "event list \<Rightarrow> path list" where
  "written_paths [] = []"
| "written_paths (WriteFile p c # evs) = p # written_paths evs"
| "written_paths (SizeCheck p # evs) = written_paths evs"
| "written_paths (Convert a # evs) = written_paths evs"

definition tally_counts :: "tally \<Rightarrow> counts" where
  "tally_counts st = (converted_count st, failed_count st, skipped_count st)"

definition totals_counts :: "totals \<Rightarrow> counts" where
  "totals_counts tot = (total_converted tot, total_failed tot, total_skipped tot)"

definition add_counts :: "counts \<Rightarrow> counts \<Rightarrow> counts" where
  "add_counts a b =
     (case a of (c1, f1, k1) \<Rightarrow> (case b of (c2, f2, k2) \<Rightarrow> (c1 + c2, f1 + f2, k1 + k2)))"

definition empty_tally :: tally where
  "empty_tally = \<lparr>converted_count = 0, failed_count = 0, skipped_count = 0, calls = []\<rparr>"

definition empty_totals :: totals where
  "empty_totals = \<lparr>total_converted = 0, total_failed = 0, total_skipped = 0, trace = []\<rparr>"

text \<open>The path of a yielded entry: \<^verbatim>\<open>file_path\<close> of the loop.\<close>

definition entry_path :: "path \<Rightarrow> dir_entry \<Rightarrow> path" where
  "entry_path folder_path e = joinpath folder_path (Path [] (rel e))"

subsection \<open>The words of the specification\<close>

text \<open>
  A yielded file the specification wants converted: a regular file whose lowercased
  extension is in the allow-list and whose size is at or below the limit.
\<close>

definition eligible :: "script \<Rightarrow> path \<Rightarrow> dir_entry \<Rightarrow> bool" where
  "eligible s folder_path e \<longleftrightarrow>
     is_file e
     \<and> lower (suffix (entry_path folder_path e)) \<in> SUPPORTED_EXTENSIONS (tool s)
     \<and> file_size_mb (st_size e) \<le> MAX_FILE_SIZE_MB"

text \<open>A yielded regular file with an allow-listed extension whose size exceeds the limit.\<close>

definition oversized_supported :: "script \<Rightarrow> path \<Rightarrow> dir_entry \<Rightarrow> bool" where
  "oversized_supported s folder_path e \<longleftrightarrow>
     is_file e
     \<and> lower (suffix (entry_path folder_path e)) \<in> SUPPORTED_EXTENSIONS (tool s)
     \<and> file_size_mb (st_size e) > MAX_FILE_SIZE_MB"

text \<open>
  A single-file source that reaches the size check (it exists, its extension is in the
  allow-list, its size can be read) with a size above the limit.
\<close>

definition oversized_file_source :: "script \<Rightarrow> world \<Rightarrow> source_config \<Rightarrow> bool" where
  "oversized_file_source s w source_config \<longleftrightarrow>
     path_exists w (parse_path (sc_path source_config))
     \<and> lower (suffix (parse_path (sc_path source_config))) \<in> SUPPORTED_EXTENSIONS (tool s)
     \<and> (case read_size s w (parse_path (sc_path source_config)) of
          None \<Rightarrow> False
        | Some n \<Rightarrow> file_size_mb n > MAX_FILE_SIZE_MB)"

text \<open>
  A yielded file, a single-file source and a URL source whose conversion call is reached
  and raises an exception of class \<open>x\<close>.
\<close>

definition entry_conversion_raises ::
  "script \<Rightarrow> world \<Rightarrow> (conv_arg \<Rightarrow> exc) \<Rightarrow> path \<Rightarrow> dir_entry \<Rightarrow> exc \<Rightarrow> bool" where
  "entry_conversion_raises s w cls folder_path e x \<longleftrightarrow>
     eligible s folder_path e
     \<and> convert w (FromPath (entry_path folder_path e)) = None
     \<and> cls (FromPath (entry_path folder_path e)) = x"

definition file_conversion_raises ::
  "script \<Rightarrow> world \<Rightarrow> (conv_arg \<Rightarrow> exc) \<Rightarrow> source_config \<Rightarrow> exc \<Rightarrow> bool" where
  "file_conversion_raises s w cls source_config x \<longleftrightarrow>
     sc_type source_config = Some ''file''
     \<and> path_exists w (parse_path (sc_path source_config))
     \<and> lower (suffix (parse_path (sc_path source_config))) \<in> SUPPORTED_EXTENSIONS (tool s)
     \<and> (case read_size s w (parse_path (sc_path source_config)) of
          None \<Rightarrow> False
        | Some n \<Rightarrow> file_size_mb n \<le> MAX_FILE_SIZE_MB
                    \<and> convert w (file_arg s (parse_path (sc_path source_config))) = None
                    \<and> cls (file_arg s (parse_path (sc_path source_config))) = x)"

definition url_conversion_raises ::
  "script \<Rightarrow> world \<Rightarrow> (conv_arg \<Rightarrow> exc) \<Rightarrow> source_config \<Rightarrow> exc \<Rightarrow> bool" where
  "url_conversion_raises s w cls source_config x \<longleftrightarrow>
     tool s \<noteq> Pymupdf
     \<and> sc_type source_config = Some ''url''
     \<and> convert w (FromUrl (sc_path source_config)) = None
     \<and> cls (FromUrl (sc_path source_config)) = x"

text \<open>Every conversion call that raises, raises an instance of \<^verbatim>\<open>Exception\<close>.\<close>

definition handler_catches_all :: "world \<Rightarrow> (conv_arg \<Rightarrow> exc) \<Rightarrow> bool" where
  "handler_catches_all w cls \<longleftrightarrow> (\<forall>a. convert w a = None \<longrightarrow> except_Exception (cls a))"

text \<open>The componentwise sum of a list of triples.\<close>

definition sum_counts :: "counts list \<Rightarrow> counts" where
  "sum_counts cs =
     (sum_list (map fst cs),
      sum_list (map (\<lambda>c. fst (snd c)) cs),
      sum_list (map (\<lambda>c. snd (snd c)) cs))"

text \<open>
  The triples the per-source functions return in a run over \<open>sources\<close>, one for each source
  a function is called on.
\<close>

definition returned_counts ::
  "script \<Rightarrow> world \<Rightarrow> path \<Rightarrow> source_config list \<Rightarrow> counts list" where
  "returned_counts s w output_dir sources =
     List.map_filter
       (\<lambda>source_config.
          map_option (\<lambda>k. fst (process_source s w output_dir k source_config))
            (dispatch s source_config))
       sources"

text \<open>The values of \<^verbatim>\<open>"type"\<close> that \<^verbatim>\<open>convert_from_sources\<close> has a case for.\<close>

definition handled_types :: "script \<Rightarrow> string option set" where
  "handled_types s =
     (if tool s = Pymupdf then {Some ''folder'', Some ''file''}
      else {Some ''folder'', Some ''file'', Some ''url''})"

text \<open>
  The output layout, part by part: every path of the layout is relative and lies below
  \<^verbatim>\<open><tool>/output\<close>. The extension is \<^verbatim>\<open>.md\<close>, and in the marker script
  \<^verbatim>\<open>.<OUTPUT_FORMAT>\<close> when \<^verbatim>\<open>OUTPUT_FORMAT\<close> is not \<^verbatim>\<open>markdown\<close>.
\<close>

definition layout_ext :: "script \<Rightarrow> string" where
  "layout_ext s =
     (if tool s = Marker \<and> OUTPUT_FORMAT s \<noteq> ''markdown'' then ''.'' @ OUTPUT_FORMAT s
      else ''.md'')"

definition output_root :: "tool \<Rightarrow> path" where
  "output_root t = Path [] [tool_dir t, ''output'']"

text \<open>The segments of a name written with slashes; a relative name starts with none.\<close>

definition name_segments :: "string \<Rightarrow> string list" where
  "name_segments nm = filter (\<lambda>p. p \<noteq> [] \<and> p \<noteq> ''.'') (split_sep CHR ''/'' nm)"

definition relative_name :: "string \<Rightarrow> bool" where
  "relative_name nm \<longleftrightarrow> take 1 nm \<noteq> ''/''"

text \<open>The relative path with the extension of its last part replaced.\<close>

definition replace_extension :: "string list \<Rightarrow> string \<Rightarrow> string list" where
  "replace_extension relative ext = butlast relative @ [stem_of (last relative) @ ext]"

text \<open>\<^verbatim>\<open><tool>/output/<source-name>/<relative-path>\<close> with the extension replaced.\<close>

definition layout_folder :: "script \<Rightarrow> string \<Rightarrow> string list \<Rightarrow> path" where
  "layout_folder s source_name relative =
     Path [] ([tool_dir (tool s), ''output''] @ name_segments source_name
              @ replace_extension relative (layout_ext s))"

text \<open>\<^verbatim>\<open><tool>/output/single_files/<name><ext>\<close> and \<^verbatim>\<open><tool>/output/urls/<name><ext>\<close>.\<close>

definition layout_single_file :: "script \<Rightarrow> string \<Rightarrow> path" where
  "layout_single_file s source_name =
     Path [] ([tool_dir (tool s), ''output'', ''single_files'']
              @ name_segments (source_name @ layout_ext s))"

definition layout_url :: "script \<Rightarrow> string \<Rightarrow> path" where
  "layout_url s source_name =
     Path [] ([tool_dir (tool s), ''output'', ''urls'']
              @ name_segments (source_name @ layout_ext s))"

text \<open>The names the single-file and URL functions give a source.\<close>

definition file_name :: "source_config \<Rightarrow> string" where
  "file_name source_config =
     (case sc_name source_config of
        Some n \<Rightarrow> n
      | None \<Rightarrow> stem (parse_path (sc_path source_config)))"

definition url_name :: "source_config \<Rightarrow> string" where
  "url_name source_config =
     (case sc_name source_config of Some n \<Rightarrow> n | None \<Rightarrow> ''web_content'')"

text \<open>A yielded entry the loop counts as converted.\<close>

definition entry_converted ::
  "script \<Rightarrow> world \<Rightarrow> path \<Rightarrow> path \<Rightarrow> string \<Rightarrow> dir_entry \<Rightarrow> bool" where
  "entry_converted s w folder_path output_dir source_name e \<longleftrightarrow>
     converted_count (folder_step s w folder_path output_dir source_name e empty_tally) = 1"

subsection \<open>Example runs\<close>

definition docling :: script where
  "docling = \<lparr>tool = Docling, OUTPUT_FORMAT = []\<rparr>"

definition pymupdf :: script where
  "pymupdf = \<lparr>tool = Pymupdf, OUTPUT_FORMAT = []\<rparr>"

definition marker_json :: script where
  "marker_json = \<lparr>tool = Marker, OUTPUT_FORMAT = ''json''\<rparr>"

definition example_entries :: "dir_entry list" where
  "example_entries =
     [\<lparr>rel = [''a.pdf''], is_file = True, st_size = 1000\<rparr>,
      \<lparr>rel = [''sub''], is_file = False, st_size = 4096\<rparr>,
      \<lparr>rel = [''broken.pdf''], is_file = True, st_size = 500\<rparr>,
      \<lparr>rel = [''sub'', ''b.PDF''], is_file = True, st_size = 2000\<rparr>,
      \<lparr>rel = [''big.pdf''], is_file = True, st_size = 60000000\<rparr>,
      \<lparr>rel = [''huge.zip''], is_file = True, st_size = 60000000\<rparr>]"

definition huge_zip :: dir_entry where
  "huge_zip = \<lparr>rel = [''huge.zip''], is_file = True, st_size = 60000000\<rparr>"

definition big_pdf :: dir_entry where
  "big_pdf = \<lparr>rel = [''big.pdf''], is_file = True, st_size = 60000000\<rparr>"

definition broken_pdf :: dir_entry where
  "broken_pdf = \<lparr>rel = [''broken.pdf''], is_file = True, st_size = 500\<rparr>"

text \<open>
  A world with a folder \<^verbatim>\<open>docs\<close> holding the entries above, no path \<^verbatim>\<open>nowhere\<close> and no
  path \<^verbatim>\<open>missing.pdf\<close>, a library that raises on \<^verbatim>\<open>docs/broken.pdf\<close> and on the URL
  \<^verbatim>\<open>http://down\<close>, and writes that succeed.
\<close>

definition example_world :: world where
  "example_world =
     \<lparr>path_exists = (\<lambda>p. p \<noteq> Path [] [''nowhere''] \<and> p \<noteq> Path [] [''missing.pdf'']),
      rglob = (\<lambda>p. if p = Path [] [''docs''] then example_entries else []),
      glob = (\<lambda>p. if p = Path [] [''docs''] then take 2 example_entries else []),
      stat_size = (\<lambda>p. if p = Path [] [''docs'', ''huge.zip''] \<or> p = Path [] [''docs'', ''big.pdf'']
                        then Some 60000000 else Some 1000),
      read_bytes = (\<lambda>p. if p = Path [] [''docs'', ''huge.zip''] \<or> p = Path [] [''docs'', ''big.pdf'']
                         then Some 60000000 else Some 1000),
      convert = (\<lambda>a. if a = FromPath (Path [] [''docs'', ''broken.pdf'']) \<or> a = FromUrl ''http://down''
                      then None else Some ''# text''),
      write_file = (\<lambda>p c. True),
      converter_ok = True\<rparr>"

definition source :: "string \<Rightarrow> string \<Rightarrow> source_config" where
  "source ty p = \<lparr>sc_type = Some ty, sc_path = p, sc_name = None, sc_recursive = None\<rparr>"

definition named_source :: "string \<Rightarrow> string \<Rightarrow> string \<Rightarrow> source_config" where
  "named_source ty p n = \<lparr>sc_type = Some ty, sc_path = p, sc_name = Some n, sc_recursive = None\<rparr>"

text \<open>
  Two libraries for the example world: one whose raises are all instances of
  \<^verbatim>\<open>Exception\<close>, and one whose conversion of \<^verbatim>\<open>docs/broken.pdf\<close> is interrupted from the
  keyboard.
\<close>

definition only_exceptions :: "conv_arg \<Rightarrow> exc" where
  "only_exceptions a = Exception_class"

definition interrupt_on_broken :: "conv_arg \<Rightarrow> exc" where
  "interrupt_on_broken a =
     (if a = FromPath (Path [] [''docs'', ''broken.pdf'']) then KeyboardInterrupt
      else Exception_class)"

section \<open>Properties\<close>

subsection \<open>Evaluation of the path functions on the examples\<close>

lemma oversized_iff: "file_size_mb n > MAX_FILE_SIZE_MB \<longleftrightarrow> 52428800 < n"
  by (simp add: file_size_mb_def MAX_FILE_SIZE_MB_def field_simps)

lemma within_limit_iff: "file_size_mb n \<le> MAX_FILE_SIZE_MB \<longleftrightarrow> n \<le> 52428800"
  by (simp add: file_size_mb_def MAX_FILE_SIZE_MB_def field_simps)

lemmas path_eval =
  parse_path_def path_root_def joinpath_def name_def suffix_def suffix_of_def stem_def
  stem_of_def with_suffix_def lower_def lower_char_def entry_path_def

lemmas example_eval =
  docling_def pymupdf_def marker_json_def example_world_def example_entries_def source_def
  huge_zip_def broken_pdf_def big_pdf_def named_source_def only_exceptions_def
  interrupt_on_broken_def

subsection \<open>Single-file sources\<close>

lemma process_file_source_cases:
  "fst (process_file_source s w source_config output_dir) \<in> {(1, 0, 0), (0, 1, 0), (0, 0, 1)}"
  by (simp add: process_file_source_def Let_def split: option.split)

lemma dispatch_file:
  "sc_type source_config = Some ''file'' \<Longrightarrow> dispatch s source_config = Some FileSource"
  by (simp add: dispatch_def)

text \<open>
  C9. \<^verbatim>\<open>process_file_source\<close> returns one of the triples (1,0,0), (0,1,0), (0,0,1), and the
  step of \<^verbatim>\<open>convert_from_sources\<close> on a source of type \<^verbatim>\<open>"file"\<close> raises exactly one of
  the three running totals, by one.
\<close>

theorem file_source_one_count:
  assumes "sc_type source_config = Some ''file''"
  shows "fst (process_file_source s w source_config output_dir) \<in> {(1, 0, 0), (0, 1, 0), (0, 0, 1)}
       \<and> totals_counts (source_step s w output_dir source_config tot) \<in>
           {add_counts (totals_counts tot) (1, 0, 0),
            add_counts (totals_counts tot) (0, 1, 0),
            add_counts (totals_counts tot) (0, 0, 1)}"
proof -
  obtain r evs where r: "process_file_source s w source_config output_dir = (r, evs)"
    by (cases "process_file_source s w source_config output_dir")
  have "fst (process_file_source s w source_config output_dir) \<in> {(1, 0, 0), (0, 1, 0), (0, 0, 1)}"
    by (rule process_file_source_cases)
  with r have cases: "r = (1, 0, 0) \<or> r = (0, 1, 0) \<or> r = (0, 0, 1)"
    by simp
  have step: "totals_counts (source_step s w output_dir source_config tot)
                = add_counts (totals_counts tot) r"
    using r dispatch_file [OF assms, of s]
    by (cases r)
       (simp add: source_step_def process_source_def totals_counts_def add_counts_def
             split: prod.split)
  from cases step r show ?thesis
    by auto
qed

theorem file_source_one_count_witness:
  "sc_type (source ''file'' ''docs/a.pdf'') = Some ''file''
   \<and> fst (process_file_source docling example_world (source ''file'' ''docs/a.pdf'')
            (setup_output_directory docling)) = (1, 0, 0)
   \<and> totals_counts (source_step docling example_world (setup_output_directory docling)
                      (source ''file'' ''docs/a.pdf'') empty_totals) = (1, 0, 0)"
proof -
  have h: "sc_type (source ''file'' ''docs/a.pdf'') = Some ''file''"
    by (simp add: source_def)
  have r: "fst (process_file_source docling example_world (source ''file'' ''docs/a.pdf'')
                  (setup_output_directory docling)) = (1, 0, 0)"
    by (simp add: process_file_source_def example_eval path_eval read_size_def file_arg_def
          SUPPORTED_EXTENSIONS_def oversized_iff Let_def)
  have "totals_counts (source_step docling example_world (setup_output_directory docling)
                      (source ''file'' ''docs/a.pdf'') empty_totals) = (1, 0, 0)"
    using file_source_one_count [OF h, of docling example_world "setup_output_directory docling"
            empty_totals] r
    by (cases "process_file_source docling example_world (source ''file'' ''docs/a.pdf'')
                 (setup_output_directory docling)")
       (simp add: source_step_def process_source_def dispatch_def source_def totals_counts_def
             empty_totals_def)
  with h r show ?thesis
    by simp
qed

text \<open>
  C10. For an existing single-file source with an extension outside the allow-list,
  \<^verbatim>\<open>process_file_source\<close> returns (0,1,0) whatever the world says about the size of the
  file, and makes no call at all: the size is not read, the library is not called.
\<close>

theorem extension_check_precedes_size_check:
  assumes "path_exists w (parse_path (sc_path source_config))"
      and "lower (suffix (parse_path (sc_path source_config))) \<notin> SUPPORTED_EXTENSIONS (tool s)"
  shows "process_file_source s w source_config output_dir = ((0, 1, 0), [])
       \<and> size_checks (snd (process_file_source s w source_config output_dir)) = []
       \<and> process_file_source s (w\<lparr>stat_size := sz, read_bytes := rd\<rparr>) source_config output_dir
           = ((0, 1, 0), [])"
  using assms by (simp add: process_file_source_def Let_def)

theorem extension_check_precedes_size_check_witness:
  "path_exists example_world (parse_path (sc_path (source ''file'' ''docs/huge.zip'')))
   \<and> lower (suffix (parse_path (sc_path (source ''file'' ''docs/huge.zip''))))
       \<notin> SUPPORTED_EXTENSIONS (tool docling)
   \<and> stat_size example_world (parse_path ''docs/huge.zip'') = Some 60000000
   \<and> file_size_mb 60000000 > MAX_FILE_SIZE_MB
   \<and> process_file_source docling example_world (source ''file'' ''docs/huge.zip'')
       (setup_output_directory docling) = ((0, 1, 0), [])"
proof -
  have h1: "path_exists example_world (parse_path (sc_path (source ''file'' ''docs/huge.zip'')))"
    by (simp add: example_eval path_eval)
  have h2: "lower (suffix (parse_path (sc_path (source ''file'' ''docs/huge.zip''))))
              \<notin> SUPPORTED_EXTENSIONS (tool docling)"
    by (simp add: example_eval path_eval SUPPORTED_EXTENSIONS_def)
  have h3: "stat_size example_world (parse_path ''docs/huge.zip'') = Some 60000000"
    by (simp add: example_eval path_eval)
  have h4: "file_size_mb 60000000 > MAX_FILE_SIZE_MB"
    by (simp add: oversized_iff)
  from extension_check_precedes_size_check [OF h1 h2] h1 h2 h3 h4 show ?thesis
    by blast
qed

subsection \<open>The calls of a run\<close>

lemma conversion_calls_append:
  "conversion_calls (xs @ ys) = conversion_calls xs @ conversion_calls ys"
  by (induction xs rule: conversion_calls.induct) simp_all

lemma written_paths_append:
  "written_paths (xs @ ys) = written_paths xs @ written_paths ys"
  by (induction xs rule: written_paths.induct) simp_all

lemma size_checks_append:
  "size_checks (xs @ ys) = size_checks xs @ size_checks ys"
  by (induction xs rule: size_checks.induct) simp_all

subsection \<open>The folder loop\<close>

lemma folder_step_calls:
  "conversion_calls (calls (folder_step s w fp out nm e st))
     = conversion_calls (calls st)
       @ (if eligible s fp e then [FromPath (entry_path fp e)] else [])"
  by (simp add: folder_step_def eligible_def entry_path_def Let_def conversion_calls_append
        not_less split: option.split)

lemma folder_loop_calls:
  "conversion_calls (calls (folder_loop s w fp out nm es st))
     = conversion_calls (calls st)
       @ map (\<lambda>e. FromPath (entry_path fp e)) (filter (eligible s fp) es)"
  by (induction es arbitrary: st) (simp_all add: folder_step_calls)

lemma entry_path_inj: "entry_path fp e = entry_path fp e' \<longleftrightarrow> rel e = rel e'"
  by (simp add: entry_path_def joinpath_def)

lemma count_list_distinct:
  "distinct xs \<Longrightarrow> x \<in> set xs \<Longrightarrow> count_list xs x = 1"
  by (induction xs) auto

lemma count_one:
  assumes d: "distinct (map rel es)" and e: "e \<in> set es" and p: "P e"
  shows "count_list (map (\<lambda>e. FromPath (entry_path fp e)) (filter P es))
           (FromPath (entry_path fp e)) = 1"
proof -
  let ?f = "\<lambda>e. FromPath (entry_path fp e)"
  from d have inj: "inj_on rel (set es)" and dist: "distinct es"
    by (simp_all add: distinct_map)
  have "inj_on ?f (set es)"
    using inj by (auto simp: inj_on_def entry_path_inj)
  then have "inj_on ?f (set (filter P es))"
    by (rule inj_on_subset) simp
  moreover from e p have mem: "e \<in> set (filter P es)"
    by simp
  ultimately have "count_list (map ?f (filter P es)) (?f e) = count_list (filter P es) e"
    by (rule count_list_inj_map)
  also from dist mem have "\<dots> = 1"
    by (simp add: count_list_distinct)
  finally show ?thesis .
qed

lemma add_counts_assoc: "add_counts (add_counts a b) c = add_counts a (add_counts b c)"
  by (simp add: add_counts_def split: prod.split)

lemma add_counts_zero [simp]: "add_counts a (0, 0, 0) = a" "add_counts (0, 0, 0) a = a"
  by (simp_all add: add_counts_def split: prod.split)

lemma tally_counts_empty [simp]: "tally_counts empty_tally = (0, 0, 0)"
  by (simp add: tally_counts_def empty_tally_def)

lemma folder_step_counts:
  "tally_counts (folder_step s w fp out nm e st)
     = add_counts (tally_counts st) (tally_counts (folder_step s w fp out nm e empty_tally))"
  by (simp add: folder_step_def tally_counts_def add_counts_def empty_tally_def Let_def
        split: option.split)

lemma folder_loop_counts:
  "tally_counts (folder_loop s w fp out nm es st)
     = add_counts (tally_counts st) (tally_counts (folder_loop s w fp out nm es empty_tally))"
proof (induction es arbitrary: st)
  case Nil
  show ?case by simp
next
  case (Cons e es)
  have "tally_counts (folder_loop s w fp out nm (e # es) st)
          = add_counts (tally_counts (folder_step s w fp out nm e st))
              (tally_counts (folder_loop s w fp out nm es empty_tally))"
    using Cons.IH [of "folder_step s w fp out nm e st"] by simp
  also have "\<dots> = add_counts (tally_counts st)
                     (add_counts (tally_counts (folder_step s w fp out nm e empty_tally))
                        (tally_counts (folder_loop s w fp out nm es empty_tally)))"
    by (simp add: folder_step_counts [of s w fp out nm e st] add_counts_assoc)
  also have "\<dots> = add_counts (tally_counts st)
                     (tally_counts (folder_loop s w fp out nm (e # es) empty_tally))"
    using Cons.IH [of "folder_step s w fp out nm e empty_tally"] by simp
  finally show ?case .
qed

lemma folder_loop_append:
  "folder_loop s w fp out nm (xs @ ys) st
     = folder_loop s w fp out nm ys (folder_loop s w fp out nm xs st)"
  by (induction xs arbitrary: st) simp_all

lemma folder_step_oversized:
  "oversized_supported s fp e \<Longrightarrow>
     folder_step s w fp out nm e st
       = st\<lparr>skipped_count := skipped_count st + 1,
            calls := calls st @ [SizeCheck (entry_path fp e)]\<rparr>"
  by (simp add: folder_step_def oversized_supported_def entry_path_def Let_def)

lemma folder_step_skipped:
  "skipped_count (folder_step s w fp out nm e st)
     = skipped_count st + (if oversized_supported s fp e then 1 else 0)"
  by (simp add: folder_step_def oversized_supported_def entry_path_def Let_def
        split: option.split)

lemma folder_loop_skipped:
  "skipped_count (folder_loop s w fp out nm es st)
     = skipped_count st + length (filter (oversized_supported s fp) es)"
  by (induction es arbitrary: st) (simp_all add: folder_step_skipped)

lemma folder_step_raises:
  "eligible s fp e \<Longrightarrow> convert w (FromPath (entry_path fp e)) = None \<Longrightarrow>
     folder_step s w fp out nm e st
       = st\<lparr>failed_count := failed_count st + 1,
            calls := calls st @ [SizeCheck (entry_path fp e),
                                 Convert (FromPath (entry_path fp e))]\<rparr>"
  by (simp add: folder_step_def eligible_def entry_path_def Let_def not_less)

lemma process_folder_source_counts:
  "path_exists w (parse_path (sc_path cfg)) \<Longrightarrow>
     fst (process_folder_source s w cfg out)
       = tally_counts (folder_loop s w (parse_path (sc_path cfg)) out (folder_name cfg)
            (file_iterator w cfg) empty_tally)"
  by (simp add: process_folder_source_def Let_def tally_counts_def empty_tally_def)

lemma process_folder_source_calls:
  "path_exists w (parse_path (sc_path cfg)) \<Longrightarrow>
     snd (process_folder_source s w cfg out)
       = calls (folder_loop s w (parse_path (sc_path cfg)) out (folder_name cfg)
            (file_iterator w cfg) empty_tally)"
  by (simp add: process_folder_source_def Let_def empty_tally_def)

subsection \<open>The example folder\<close>

lemma example_docs: "parse_path (sc_path (source ''folder'' ''docs'')) = Path [] [''docs'']"
  by (simp add: example_eval path_eval)

lemma example_iterator:
  "file_iterator example_world (source ''folder'' ''docs'') = example_entries"
  by (simp add: file_iterator_def example_docs Let_def) (simp add: example_eval)

lemma example_exists: "path_exists example_world (Path [] [''docs''])"
  by (simp add: example_eval)

lemma example_eligible:
  "filter (eligible docling (Path [] [''docs''])) example_entries
     = [\<lparr>rel = [''a.pdf''], is_file = True, st_size = 1000\<rparr>,
        broken_pdf,
        \<lparr>rel = [''sub'', ''b.PDF''], is_file = True, st_size = 2000\<rparr>]"
  by (simp add: eligible_def example_eval path_eval SUPPORTED_EXTENSIONS_def within_limit_iff)

lemma example_oversized:
  "filter (oversized_supported docling (Path [] [''docs''])) example_entries
     = [\<lparr>rel = [''big.pdf''], is_file = True, st_size = 60000000\<rparr>]"
  by (simp add: oversized_supported_def example_eval path_eval SUPPORTED_EXTENSIONS_def
        oversized_iff)

subsection \<open>Folder sources: one conversion call for each eligible file\<close>

text \<open>
  C1. For an existing folder the conversion calls of \<^verbatim>\<open>process_folder_source\<close> are, in the
  order of the traversal, one call for each yielded entry that is a regular file with an
  allow-listed lowercased extension and a size at or below the limit, and no other call.
  When the traversal yields no path twice, the path of each such entry stands exactly once
  among the calls.
\<close>

theorem folder_one_call_per_eligible_file:
  assumes "path_exists w (parse_path (sc_path source_config))"
  shows "conversion_calls (snd (process_folder_source s w source_config output_dir))
           = map (\<lambda>e. FromPath (entry_path (parse_path (sc_path source_config)) e))
               (filter (eligible s (parse_path (sc_path source_config)))
                  (file_iterator w source_config))
       \<and> (distinct (map rel (file_iterator w source_config)) \<longrightarrow>
            (\<forall>e \<in> set (file_iterator w source_config).
               eligible s (parse_path (sc_path source_config)) e \<longrightarrow>
               count_list
                 (conversion_calls (snd (process_folder_source s w source_config output_dir)))
                 (FromPath (entry_path (parse_path (sc_path source_config)) e)) = 1))"
proof -
  let ?fp = "parse_path (sc_path source_config)"
  have eq: "conversion_calls (snd (process_folder_source s w source_config output_dir))
           = map (\<lambda>e. FromPath (entry_path ?fp e))
               (filter (eligible s ?fp) (file_iterator w source_config))"
    using assms by (simp add: process_folder_source_calls folder_loop_calls empty_tally_def)
  show ?thesis
    unfolding eq using count_one [where P = "eligible s ?fp" and fp = ?fp] by blast
qed

theorem folder_one_call_per_eligible_file_witness:
  "path_exists example_world (parse_path (sc_path (source ''folder'' ''docs'')))
   \<and> distinct (map rel (file_iterator example_world (source ''folder'' ''docs'')))
   \<and> conversion_calls (snd (process_folder_source docling example_world
        (source ''folder'' ''docs'') (setup_output_directory docling)))
       = [FromPath (Path [] [''docs'', ''a.pdf'']),
          FromPath (Path [] [''docs'', ''broken.pdf'']),
          FromPath (Path [] [''docs'', ''sub'', ''b.PDF''])]
   \<and> count_list
        (conversion_calls (snd (process_folder_source docling example_world
           (source ''folder'' ''docs'') (setup_output_directory docling))))
        (FromPath (Path [] [''docs'', ''sub'', ''b.PDF''])) = 1"
proof -
  have h: "path_exists example_world (parse_path (sc_path (source ''folder'' ''docs'')))"
    by (simp add: example_docs example_exists)
  have d: "distinct (map rel (file_iterator example_world (source ''folder'' ''docs'')))"
    by (simp add: example_iterator) (simp add: example_entries_def)
  note inst = folder_one_call_per_eligible_file [OF h, of docling "setup_output_directory docling"]
  from inst have calls:
    "conversion_calls (snd (process_folder_source docling example_world
        (source ''folder'' ''docs'') (setup_output_directory docling)))
       = [FromPath (Path [] [''docs'', ''a.pdf'']),
          FromPath (Path [] [''docs'', ''broken.pdf'']),
          FromPath (Path [] [''docs'', ''sub'', ''b.PDF''])]"
    by (simp add: example_docs example_iterator example_eligible)
       (simp add: entry_path_def joinpath_def broken_pdf_def)
  have "count_list
        (conversion_calls (snd (process_folder_source docling example_world
           (source ''folder'' ''docs'') (setup_output_directory docling))))
        (FromPath (Path [] [''docs'', ''sub'', ''b.PDF''])) = 1"
    unfolding calls by simp
  with h d calls show ?thesis
    by blast
qed


subsection \<open>Skipped files\<close>

lemma process_file_source_oversized:
  "oversized_file_source s w cfg \<Longrightarrow>
     process_file_source s w cfg out = ((0, 0, 1), [SizeCheck (parse_path (sc_path cfg))])"
  by (auto simp add: oversized_file_source_def process_file_source_def Let_def
        split: option.splits)

lemma process_file_source_skipped:
  "snd (snd (fst (process_file_source s w cfg out)))
     = (if oversized_file_source s w cfg then 1 else 0)"
  by (simp add: oversized_file_source_def process_file_source_def Let_def
        split: option.split)

lemma process_url_source_skipped:
  "snd (snd (fst (process_url_source s w cfg out))) = 0"
  by (simp add: process_url_source_def Let_def split: option.split)

lemma process_folder_source_skipped:
  "snd (snd (fst (process_folder_source s w cfg out)))
     = (if path_exists w (parse_path (sc_path cfg))
        then length (filter (oversized_supported s (parse_path (sc_path cfg)))
                       (file_iterator w cfg))
        else 0)"
  by (simp add: process_folder_source_def Let_def folder_loop_skipped)

text \<open>
  C2, as stated, fails: a file above the limit whose extension is outside the allow-list
  is not counted as skipped. In the example folder \<^verbatim>\<open>huge.zip\<close> has 60000000 bytes and the
  loop passes it over with every counter unchanged; as a single-file source it is counted
  as failed.
\<close>

theorem oversized_unsupported_file_not_skipped:
  "is_file huge_zip
   \<and> file_size_mb (st_size huge_zip) > MAX_FILE_SIZE_MB
   \<and> folder_step docling example_world (Path [] [''docs'']) (setup_output_directory docling)
        ''docs'' huge_zip empty_tally = empty_tally
   \<and> path_exists example_world (parse_path ''docs/huge.zip'')
   \<and> stat_size example_world (parse_path ''docs/huge.zip'') = Some 60000000
   \<and> process_file_source docling example_world (source ''file'' ''docs/huge.zip'')
        (setup_output_directory docling) = ((0, 1, 0), [])"
proof -
  have "folder_step docling example_world (Path [] [''docs'']) (setup_output_directory docling)
        ''docs'' huge_zip empty_tally = empty_tally"
    by (simp add: folder_step_def example_eval path_eval SUPPORTED_EXTENSIONS_def Let_def)
  moreover have "process_file_source docling example_world (source ''file'' ''docs/huge.zip'')
        (setup_output_directory docling) = ((0, 1, 0), [])"
    by (simp add: process_file_source_def example_eval path_eval SUPPORTED_EXTENSIONS_def
          Let_def)
  moreover have "file_size_mb (st_size huge_zip) > MAX_FILE_SIZE_MB"
    by (simp add: huge_zip_def oversized_iff)
  moreover have "path_exists example_world (parse_path ''docs/huge.zip'')"
    "stat_size example_world (parse_path ''docs/huge.zip'') = Some 60000000"
    by (simp_all add: example_eval path_eval)
  ultimately show ?thesis
    by (simp add: huge_zip_def)
qed

text \<open>
  C2, amended. A yielded regular file with an allow-listed extension and a size above the
  limit adds one to the skipped counter and makes no conversion call (the step only reads
  the size), and so does a single-file source that exists, has an allow-listed extension
  and a readable size above the limit. The skipped counter rises for no other reason: a
  step of the folder loop adds one exactly for such an entry, the skipped count of a folder
  source is the number of such entries (zero for a missing folder), the skipped count of a
  single-file source is one exactly for such a source, and a URL source never counts as
  skipped.
\<close>

theorem skipped_iff_oversized_supported:
  "(oversized_supported s fp e \<longrightarrow>
      folder_step s w fp out nm e st
        = st\<lparr>skipped_count := skipped_count st + 1,
             calls := calls st @ [SizeCheck (entry_path fp e)]\<rparr>)
   \<and> skipped_count (folder_step s w fp out nm e st)
       = skipped_count st + (if oversized_supported s fp e then 1 else 0)
   \<and> snd (snd (fst (process_folder_source s w cfg out)))
       = (if path_exists w (parse_path (sc_path cfg))
          then length (filter (oversized_supported s (parse_path (sc_path cfg)))
                         (file_iterator w cfg))
          else 0)
   \<and> (oversized_file_source s w cfg \<longrightarrow>
        process_file_source s w cfg out
          = ((0, 0, 1), [SizeCheck (parse_path (sc_path cfg))]))
   \<and> snd (snd (fst (process_file_source s w cfg out)))
       = (if oversized_file_source s w cfg then 1 else 0)
   \<and> snd (snd (fst (process_url_source s w cfg out))) = 0"
proof (intro conjI impI)
  assume "oversized_supported s fp e"
  then show "folder_step s w fp out nm e st
        = st\<lparr>skipped_count := skipped_count st + 1,
             calls := calls st @ [SizeCheck (entry_path fp e)]\<rparr>"
    by (rule folder_step_oversized)
next
  show "skipped_count (folder_step s w fp out nm e st)
       = skipped_count st + (if oversized_supported s fp e then 1 else 0)"
    by (rule folder_step_skipped)
next
  show "snd (snd (fst (process_folder_source s w cfg out)))
       = (if path_exists w (parse_path (sc_path cfg))
          then length (filter (oversized_supported s (parse_path (sc_path cfg)))
                         (file_iterator w cfg))
          else 0)"
    by (rule process_folder_source_skipped)
next
  assume "oversized_file_source s w cfg"
  then show "process_file_source s w cfg out
          = ((0, 0, 1), [SizeCheck (parse_path (sc_path cfg))])"
    by (rule process_file_source_oversized)
next
  show "snd (snd (fst (process_file_source s w cfg out)))
       = (if oversized_file_source s w cfg then 1 else 0)"
    by (rule process_file_source_skipped)
next
  show "snd (snd (fst (process_url_source s w cfg out))) = 0"
    by (rule process_url_source_skipped)
qed

theorem skipped_iff_oversized_supported_witness:
  "oversized_supported docling (Path [] [''docs'']) big_pdf
   \<and> folder_step docling example_world (Path [] [''docs'']) (setup_output_directory docling)
        ''docs'' big_pdf empty_tally
       = \<lparr>converted_count = 0, failed_count = 0, skipped_count = 1,
          calls = [SizeCheck (Path [] [''docs'', ''big.pdf''])]\<rparr>
   \<and> oversized_file_source docling example_world (source ''file'' ''docs/big.pdf'')
   \<and> process_file_source docling example_world (source ''file'' ''docs/big.pdf'')
        (setup_output_directory docling)
       = ((0, 0, 1), [SizeCheck (Path [] [''docs'', ''big.pdf''])])
   \<and> snd (snd (fst (process_folder_source docling example_world (source ''folder'' ''docs'')
        (setup_output_directory docling)))) = 1"
proof -
  have h1: "oversized_supported docling (Path [] [''docs'']) big_pdf"
    by (simp add: oversized_supported_def example_eval path_eval SUPPORTED_EXTENSIONS_def
          oversized_iff)
  have h2: "oversized_file_source docling example_world (source ''file'' ''docs/big.pdf'')"
    by (simp add: oversized_file_source_def read_size_def example_eval path_eval
          SUPPORTED_EXTENSIONS_def oversized_iff)
  note inst = skipped_iff_oversized_supported
    [of docling "Path [] [''docs'']" big_pdf example_world "setup_output_directory docling"
        "''docs''" empty_tally "source ''file'' ''docs/big.pdf''"]
  note inst2 = skipped_iff_oversized_supported
    [of docling "Path [] [''docs'']" big_pdf example_world "setup_output_directory docling"
        "''docs''" empty_tally "source ''folder'' ''docs''"]
  from inst h1 have a: "folder_step docling example_world (Path [] [''docs''])
        (setup_output_directory docling) ''docs'' big_pdf empty_tally
       = \<lparr>converted_count = 0, failed_count = 0, skipped_count = 1,
          calls = [SizeCheck (Path [] [''docs'', ''big.pdf''])]\<rparr>"
    by (simp add: empty_tally_def entry_path_def joinpath_def big_pdf_def)
  from inst h2 have b: "process_file_source docling example_world
        (source ''file'' ''docs/big.pdf'') (setup_output_directory docling)
       = ((0, 0, 1), [SizeCheck (Path [] [''docs'', ''big.pdf''])])"
    by (simp add: source_def path_eval)
  from inst2 have c: "snd (snd (fst (process_folder_source docling example_world
        (source ''folder'' ''docs'') (setup_output_directory docling)))) = 1"
    by (simp add: example_docs example_exists example_iterator example_oversized)
  from h1 a h2 b c show ?thesis
    by blast
qed


subsection \<open>The loop over the sources\<close>

lemma totals_counts_empty [simp]: "totals_counts empty_totals = (0, 0, 0)"
  by (simp add: totals_counts_def empty_totals_def)

lemma source_step_counts:
  "totals_counts (source_step s w out src tot)
     = add_counts (totals_counts tot)
         (case dispatch s src of
            None \<Rightarrow> (0, 0, 0)
          | Some k \<Rightarrow> fst (process_source s w out k src))"
  by (simp add: source_step_def totals_counts_def add_counts_def split: option.split prod.split)

lemma sources_loop_counts:
  "totals_counts (sources_loop s w out srcs tot)
     = add_counts (totals_counts tot) (sum_counts (returned_counts s w out srcs))"
proof (induction srcs arbitrary: tot)
  case Nil
  show ?case by (simp add: sum_counts_def returned_counts_def map_filter_simps)
next
  case (Cons src srcs)
  show ?case
    by (cases "dispatch s src")
       (simp_all add: Cons.IH source_step_counts add_counts_assoc,
        simp_all add: sum_counts_def returned_counts_def map_filter_simps add_counts_def
           split: prod.split)
qed

lemma convert_from_sources_counts:
  "fst (convert_from_sources s w srcs out) = sum_counts (returned_counts s w out srcs)"
  using sources_loop_counts [of s w out srcs empty_totals]
  by (simp add: convert_from_sources_def Let_def totals_counts_def empty_totals_def)

lemma returned_counts_append:
  "returned_counts s w out (xs @ ys) = returned_counts s w out xs @ returned_counts s w out ys"
  by (simp add: returned_counts_def map_filter_def)

lemma sum_counts_append:
  "sum_counts (xs @ ys) = add_counts (sum_counts xs) (sum_counts ys)"
  by (simp add: sum_counts_def add_counts_def)

lemma convert_from_sources_append:
  "fst (convert_from_sources s w (xs @ ys) out)
     = add_counts (fst (convert_from_sources s w xs out)) (fst (convert_from_sources s w ys out))"
  by (simp add: convert_from_sources_counts returned_counts_append sum_counts_append)

lemma convert_from_sources_single:
  "fst (convert_from_sources s w [src] out)
     = (case dispatch s src of None \<Rightarrow> (0, 0, 0) | Some k \<Rightarrow> fst (process_source s w out k src))"
  by (simp add: convert_from_sources_counts returned_counts_def map_filter_simps sum_counts_def
        split: option.split)

lemma convert_from_sources_split:
  "fst (convert_from_sources s w (pre @ src # post) out)
     = add_counts
         (add_counts (fst (convert_from_sources s w pre out))
            (case dispatch s src of
               None \<Rightarrow> (0, 0, 0)
             | Some k \<Rightarrow> fst (process_source s w out k src)))
         (fst (convert_from_sources s w post out))"
  using convert_from_sources_append [of s w pre "[src] @ post" out]
        convert_from_sources_append [of s w "[src]" post out]
  by (simp add: convert_from_sources_single add_counts_assoc)

lemma dispatch_None_iff: "dispatch s src = None \<longleftrightarrow> sc_type src \<notin> handled_types s"
  by (auto simp: dispatch_def handled_types_def Let_def)

lemma sources_loop_append:
  "sources_loop s w out (xs @ ys) tot = sources_loop s w out ys (sources_loop s w out xs tot)"
  by (induction xs arbitrary: tot) simp_all

subsection \<open>The counts of a folder source around one entry\<close>

lemma folder_split_counts:
  assumes "path_exists w (parse_path (sc_path cfg))"
      and "file_iterator w cfg = pre @ e # post"
  shows "fst (process_folder_source s w cfg out)
           = add_counts
               (add_counts
                  (tally_counts (folder_loop s w (parse_path (sc_path cfg)) out (folder_name cfg)
                                   pre empty_tally))
                  (tally_counts (folder_step s w (parse_path (sc_path cfg)) out (folder_name cfg)
                                   e empty_tally)))
               (tally_counts (folder_loop s w (parse_path (sc_path cfg)) out (folder_name cfg)
                                post empty_tally))"
proof -
  let ?fp = "parse_path (sc_path cfg)" and ?nm = "folder_name cfg"
  let ?a = "folder_loop s w ?fp out ?nm pre empty_tally"
  have "fst (process_folder_source s w cfg out)
          = tally_counts (folder_loop s w ?fp out ?nm post (folder_step s w ?fp out ?nm e ?a))"
    using assms by (simp add: process_folder_source_counts folder_loop_append)
  also have "\<dots> = add_counts (tally_counts (folder_step s w ?fp out ?nm e ?a))
                     (tally_counts (folder_loop s w ?fp out ?nm post empty_tally))"
    by (rule folder_loop_counts)
  also have "tally_counts (folder_step s w ?fp out ?nm e ?a)
               = add_counts (tally_counts ?a)
                   (tally_counts (folder_step s w ?fp out ?nm e empty_tally))"
    by (rule folder_step_counts)
  finally show ?thesis .
qed

lemma example_folder_name: "folder_name (source ''folder'' ''docs'') = ''docs''"
  by (simp add: folder_name_def example_eval path_eval)

lemma example_split:
  "example_entries
     = [\<lparr>rel = [''a.pdf''], is_file = True, st_size = 1000\<rparr>,
        \<lparr>rel = [''sub''], is_file = False, st_size = 4096\<rparr>]
       @ broken_pdf
       # [\<lparr>rel = [''sub'', ''b.PDF''], is_file = True, st_size = 2000\<rparr>, big_pdf, huge_zip]"
  by (simp add: example_eval)

lemmas run_eval =
  folder_step_def process_file_source_def process_url_source_def read_size_def file_arg_def
  extension_def setup_output_directory_def OUTPUT_DIR_NAME_def tool_dir_def
  SUPPORTED_EXTENSIONS_def oversized_iff Let_def

lemma example_before_broken:
  "tally_counts (folder_loop docling example_world (Path [] [''docs''])
      (setup_output_directory docling) ''docs''
      [\<lparr>rel = [''a.pdf''], is_file = True, st_size = 1000\<rparr>,
       \<lparr>rel = [''sub''], is_file = False, st_size = 4096\<rparr>] empty_tally) = (1, 0, 0)"
  by (simp add: run_eval example_eval path_eval tally_counts_def empty_tally_def)

lemma example_after_broken:
  "tally_counts (folder_loop docling example_world (Path [] [''docs''])
      (setup_output_directory docling) ''docs''
      [\<lparr>rel = [''sub'', ''b.PDF''], is_file = True, st_size = 2000\<rparr>, big_pdf, huge_zip]
      empty_tally) = (1, 0, 1)"
  by (simp add: run_eval example_eval path_eval tally_counts_def empty_tally_def)

subsection \<open>The totals of a run\<close>

text \<open>
  C5. A run that reaches its summary (\<^verbatim>\<open>SOURCES\<close> is not empty and the converter was
  built) reports as total processed count the sum of the converted, failed and skipped
  totals, and these totals are the componentwise sums of the triples the per-source
  functions returned.
\<close>

theorem total_processed_is_sum:
  assumes "SOURCES \<noteq> []" and "tool s = Pymupdf \<or> converter_ok w"
  shows "fst (convert_from_sources s w SOURCES (setup_output_directory s))
           = sum_counts (returned_counts s w (setup_output_directory s) SOURCES)
       \<and> main s w SOURCES
           = (case sum_counts (returned_counts s w (setup_output_directory s) SOURCES) of
                (converted, failed, skipped) \<Rightarrow>
                  Summary (converted + failed + skipped) converted failed skipped)"
  using assms
  by (auto simp add: main_def Let_def convert_from_sources_counts split: prod.split)

lemma example_returned:
  "returned_counts docling example_world (setup_output_directory docling)
     [source ''folder'' ''docs'', source ''file'' ''docs/huge.zip'', source ''ftp'' ''x'']
     = [(2, 1, 1), (0, 1, 0)]"
proof -
  have "fst (process_folder_source docling example_world (source ''folder'' ''docs'')
               (setup_output_directory docling)) = (2, 1, 1)"
    using folder_split_counts [of example_world "source ''folder'' ''docs''"
            "[\<lparr>rel = [''a.pdf''], is_file = True, st_size = 1000\<rparr>,
              \<lparr>rel = [''sub''], is_file = False, st_size = 4096\<rparr>]"
            broken_pdf
            "[\<lparr>rel = [''sub'', ''b.PDF''], is_file = True, st_size = 2000\<rparr>, big_pdf, huge_zip]"
            docling "setup_output_directory docling"]
    unfolding example_docs example_folder_name example_before_broken example_after_broken
      example_iterator
    by (simp add: example_exists example_split [symmetric])
       (simp add: run_eval example_eval path_eval tally_counts_def empty_tally_def add_counts_def)
  moreover have "fst (process_file_source docling example_world (source ''file'' ''docs/huge.zip'')
               (setup_output_directory docling)) = (0, 1, 0)"
    by (simp add: run_eval example_eval path_eval)
  ultimately show ?thesis
    by (simp add: returned_counts_def map_filter_simps dispatch_def process_source_def)
       (simp add: source_def)
qed

theorem total_processed_is_sum_witness:
  "[source ''folder'' ''docs'', source ''file'' ''docs/huge.zip'', source ''ftp'' ''x''] \<noteq> []
   \<and> converter_ok example_world
   \<and> main docling example_world
       [source ''folder'' ''docs'', source ''file'' ''docs/huge.zip'', source ''ftp'' ''x'']
       = Summary 5 2 2 1"
proof -
  let ?srcs = "[source ''folder'' ''docs'', source ''file'' ''docs/huge.zip'', source ''ftp'' ''x'']"
  have h1: "?srcs \<noteq> []"
    by simp
  have ok: "converter_ok example_world"
    by (simp add: example_eval)
  then have h2: "tool docling = Pymupdf \<or> converter_ok example_world"
    by simp
  have "main docling example_world ?srcs = Summary 5 2 2 1"
    using total_processed_is_sum [OF h1 h2]
    by (simp add: example_returned sum_counts_def)
  with h1 ok show ?thesis
    by blast
qed

subsection \<open>Sources of a type without a case\<close>

text \<open>
  C8. A source whose \<^verbatim>\<open>"type"\<close> is none of the cases of \<^verbatim>\<open>convert_from_sources\<close>
  (folder and file in every script, url in all but pymupdf; a missing type is such a
  value) leaves the three running totals and the calls made as they were, and the run goes
  on with the next source: it ends as the run without that source does.
\<close>

theorem unhandled_type_changes_nothing:
  assumes "sc_type src \<notin> handled_types s"
  shows "source_step s w out src tot = tot
       \<and> convert_from_sources s w (pre @ src # post) out
           = convert_from_sources s w (pre @ post) out"
proof -
  from assms have "dispatch s src = None"
    by (simp add: dispatch_None_iff)
  then have "\<And>tot. source_step s w out src tot = tot"
    by (simp add: source_step_def)
  then show ?thesis
    by (simp add: convert_from_sources_def sources_loop_append)
qed

theorem unhandled_type_changes_nothing_witness:
  "sc_type (source ''url'' ''http://up'') \<notin> handled_types pymupdf
   \<and> source_step pymupdf example_world (setup_output_directory pymupdf)
        (source ''url'' ''http://up'') empty_totals = empty_totals
   \<and> convert_from_sources pymupdf example_world
        ([source ''file'' ''docs/a.pdf''] @ source ''url'' ''http://up''
           # [source ''file'' ''docs/big.pdf''])
        (setup_output_directory pymupdf)
       = convert_from_sources pymupdf example_world
           ([source ''file'' ''docs/a.pdf''] @ [source ''file'' ''docs/big.pdf''])
           (setup_output_directory pymupdf)"
proof -
  have h: "sc_type (source ''url'' ''http://up'') \<notin> handled_types pymupdf"
    by (simp add: handled_types_def source_def pymupdf_def)
  from unhandled_type_changes_nothing [OF h] h show ?thesis
    by blast
qed


subsection \<open>Missing paths and unsupported extensions\<close>

lemma process_file_source_rejected:
  "\<not> path_exists w (parse_path (sc_path cfg))
   \<or> lower (suffix (parse_path (sc_path cfg))) \<notin> SUPPORTED_EXTENSIONS (tool s) \<Longrightarrow>
     process_file_source s w cfg out = ((0, 1, 0), [])"
  by (auto simp add: process_file_source_def Let_def)

lemma process_folder_source_missing:
  "\<not> path_exists w (parse_path (sc_path cfg)) \<Longrightarrow>
     process_folder_source s w cfg out = ((0, 0, 0), [])"
  by (simp add: process_folder_source_def Let_def)

text \<open>
  C3, as stated, fails for folder sources: a folder whose path is missing returns
  (0,0,0), so the failure counter does not rise.
\<close>

theorem missing_folder_counts_no_failure:
  "sc_type (source ''folder'' ''nowhere'') = Some ''folder''
   \<and> \<not> path_exists example_world (parse_path (sc_path (source ''folder'' ''nowhere'')))
   \<and> process_folder_source docling example_world (source ''folder'' ''nowhere'')
        (setup_output_directory docling) = ((0, 0, 0), [])
   \<and> convert_from_sources docling example_world [source ''folder'' ''nowhere'']
        (setup_output_directory docling) = ((0, 0, 0), [])"
proof -
  have m: "\<not> path_exists example_world (parse_path (sc_path (source ''folder'' ''nowhere'')))"
    by (simp add: example_eval path_eval)
  then have r: "process_folder_source docling example_world (source ''folder'' ''nowhere'')
        (setup_output_directory docling) = ((0, 0, 0), [])"
    by (rule process_folder_source_missing)
  have "dispatch docling (source ''folder'' ''nowhere'') = Some FolderSource"
    by (simp add: dispatch_def source_def)
  then have "convert_from_sources docling example_world [source ''folder'' ''nowhere'']
        (setup_output_directory docling) = ((0, 0, 0), [])"
    by (simp add: convert_from_sources_def source_step_def process_source_def r Let_def)
  with m r show ?thesis
    by (simp add: source_def)
qed

text \<open>
  C3, amended. A single-file source whose path is missing or whose extension is outside
  the allow-list returns (0,1,0) without any call, and its step adds one to the failed
  total and nothing else. A folder source whose path is missing makes no call either: the
  library is not invoked for it.
\<close>

theorem rejected_source_makes_no_call:
  "(sc_type cfg = Some ''file''
      \<and> (\<not> path_exists w (parse_path (sc_path cfg))
          \<or> lower (suffix (parse_path (sc_path cfg))) \<notin> SUPPORTED_EXTENSIONS (tool s))
    \<longrightarrow>
      process_file_source s w cfg out = ((0, 1, 0), [])
      \<and> source_step s w out cfg tot = tot\<lparr>total_failed := total_failed tot + 1\<rparr>)
   \<and> (sc_type cfg = Some ''folder'' \<and> \<not> path_exists w (parse_path (sc_path cfg))
    \<longrightarrow>
      snd (process_folder_source s w cfg out) = []
      \<and> trace (source_step s w out cfg tot) = trace tot)"
proof (intro conjI impI)
  assume h: "sc_type cfg = Some ''file''
      \<and> (\<not> path_exists w (parse_path (sc_path cfg))
          \<or> lower (suffix (parse_path (sc_path cfg))) \<notin> SUPPORTED_EXTENSIONS (tool s))"
  then show r: "process_file_source s w cfg out = ((0, 1, 0), [])"
    by (simp add: process_file_source_rejected)
  from h have "dispatch s cfg = Some FileSource"
    by (simp add: dispatch_def)
  then show "source_step s w out cfg tot = tot\<lparr>total_failed := total_failed tot + 1\<rparr>"
    by (simp add: source_step_def process_source_def r)
next
  assume h: "sc_type cfg = Some ''folder'' \<and> \<not> path_exists w (parse_path (sc_path cfg))"
  then have r: "process_folder_source s w cfg out = ((0, 0, 0), [])"
    by (simp add: process_folder_source_missing)
  then show "snd (process_folder_source s w cfg out) = []"
    by simp
  from h have "dispatch s cfg = Some FolderSource"
    by (simp add: dispatch_def)
  then show "trace (source_step s w out cfg tot) = trace tot"
    by (simp add: source_step_def process_source_def r)
qed

theorem rejected_source_makes_no_call_witness:
  "sc_type (source ''file'' ''missing.pdf'') = Some ''file''
   \<and> \<not> path_exists example_world (parse_path (sc_path (source ''file'' ''missing.pdf'')))
   \<and> process_file_source docling example_world (source ''file'' ''missing.pdf'')
        (setup_output_directory docling) = ((0, 1, 0), [])
   \<and> source_step docling example_world (setup_output_directory docling)
        (source ''file'' ''missing.pdf'') empty_totals
       = \<lparr>total_converted = 0, total_failed = 1, total_skipped = 0, trace = []\<rparr>
   \<and> sc_type (source ''folder'' ''nowhere'') = Some ''folder''
   \<and> \<not> path_exists example_world (parse_path (sc_path (source ''folder'' ''nowhere'')))
   \<and> snd (process_folder_source docling example_world (source ''folder'' ''nowhere'')
        (setup_output_directory docling)) = []
   \<and> trace (source_step docling example_world (setup_output_directory docling)
        (source ''folder'' ''nowhere'') empty_totals) = []"
proof -
  let ?out = "setup_output_directory docling"
  have f1: "sc_type (source ''file'' ''missing.pdf'') = Some ''file''"
    by (simp add: source_def)
  have f2: "\<not> path_exists example_world (parse_path (sc_path (source ''file'' ''missing.pdf'')))"
    by (simp add: example_eval path_eval)
  have d1: "sc_type (source ''folder'' ''nowhere'') = Some ''folder''"
    by (simp add: source_def)
  have d2: "\<not> path_exists example_world (parse_path (sc_path (source ''folder'' ''nowhere'')))"
    by (simp add: example_eval path_eval)
  from rejected_source_makes_no_call
         [of "source ''file'' ''missing.pdf''" example_world docling ?out empty_totals] f1 f2
  have a: "process_file_source docling example_world (source ''file'' ''missing.pdf'') ?out
             = ((0, 1, 0), [])"
    and b: "source_step docling example_world ?out (source ''file'' ''missing.pdf'') empty_totals
             = empty_totals\<lparr>total_failed := total_failed empty_totals + 1\<rparr>"
    by blast+
  from rejected_source_makes_no_call
         [of "source ''folder'' ''nowhere''" example_world docling ?out empty_totals] d1 d2
  have c: "snd (process_folder_source docling example_world (source ''folder'' ''nowhere'') ?out)
             = []"
    and c0: "trace (source_step docling example_world ?out (source ''folder'' ''nowhere'')
                      empty_totals) = trace empty_totals"
    by blast+
  from c0 have c': "trace (source_step docling example_world ?out (source ''folder'' ''nowhere'')
                      empty_totals) = []"
    by (simp add: empty_totals_def)
  from b have b': "source_step docling example_world ?out (source ''file'' ''missing.pdf'')
                     empty_totals
             = \<lparr>total_converted = 0, total_failed = 1, total_skipped = 0, trace = []\<rparr>"
    by (simp add: empty_totals_def)
  from f1 f2 a b' d1 d2 c c' show ?thesis
    by blast
qed

subsection \<open>The kinds of source a script processes\<close>

text \<open>
  C7, as stated, fails for pymupdf: its \<^verbatim>\<open>convert_from_sources\<close> has no case for
  \<^verbatim>\<open>"url"\<close>. A URL the library would convert is not passed to it, and nothing is
  counted; docling converts the same source.
\<close>

theorem pymupdf_url_not_dispatched:
  "sc_type (source ''url'' ''http://up'') = Some ''url''
   \<and> convert example_world (FromUrl ''http://up'') = Some ''# text''
   \<and> dispatch pymupdf (source ''url'' ''http://up'') = None
   \<and> convert_from_sources pymupdf example_world [source ''url'' ''http://up'']
        (setup_output_directory pymupdf) = ((0, 0, 0), [])
   \<and> fst (convert_from_sources docling example_world [source ''url'' ''http://up'']
        (setup_output_directory docling)) = (1, 0, 0)"
proof -
  have d: "dispatch pymupdf (source ''url'' ''http://up'') = None"
    by (simp add: dispatch_def source_def pymupdf_def)
  then have "convert_from_sources pymupdf example_world [source ''url'' ''http://up'']
        (setup_output_directory pymupdf) = ((0, 0, 0), [])"
    by (simp add: convert_from_sources_def source_step_def Let_def)
  moreover have "fst (convert_from_sources docling example_world [source ''url'' ''http://up'']
        (setup_output_directory docling)) = (1, 0, 0)"
    by (simp add: convert_from_sources_single dispatch_def process_source_def source_def)
       (simp add: run_eval example_eval path_eval)
  moreover have "convert example_world (FromUrl ''http://up'') = Some ''# text''"
    by (simp add: example_eval)
  ultimately show ?thesis
    using d by (simp add: source_def)
qed

text \<open>
  C7, amended. Every script dispatches type \<^verbatim>\<open>"folder"\<close> to
  \<^verbatim>\<open>process_folder_source\<close> and type \<^verbatim>\<open>"file"\<close> to \<^verbatim>\<open>process_file_source\<close>. The docling,
  marker and markitdown scripts dispatch type \<^verbatim>\<open>"url"\<close> to \<^verbatim>\<open>process_url_source\<close> and add
  its triple to the totals; the pymupdf script has no case for it.
\<close>

theorem source_kinds_dispatched:
  "(sc_type cfg = Some ''folder'' \<longrightarrow>
      dispatch s cfg = Some FolderSource
      \<and> process_source s w out FolderSource cfg = process_folder_source s w cfg out)
   \<and> (sc_type cfg = Some ''file'' \<longrightarrow>
      dispatch s cfg = Some FileSource
      \<and> process_source s w out FileSource cfg = process_file_source s w cfg out)
   \<and> (sc_type cfg = Some ''url'' \<and> tool s \<noteq> Pymupdf \<longrightarrow>
      dispatch s cfg = Some UrlSource
      \<and> process_source s w out UrlSource cfg = process_url_source s w cfg out
      \<and> totals_counts (source_step s w out cfg tot)
          = add_counts (totals_counts tot) (fst (process_url_source s w cfg out))
      \<and> trace (source_step s w out cfg tot) = trace tot @ snd (process_url_source s w cfg out))
   \<and> (sc_type cfg = Some ''url'' \<and> tool s = Pymupdf \<longrightarrow> dispatch s cfg = None)"
  by (auto simp add: dispatch_def process_source_def source_step_def totals_counts_def
        add_counts_def split: prod.split)

theorem source_kinds_dispatched_witness:
  "sc_type (source ''url'' ''http://up'') = Some ''url''
   \<and> tool docling \<noteq> Pymupdf
   \<and> dispatch docling (source ''url'' ''http://up'') = Some UrlSource
   \<and> trace (source_step docling example_world (setup_output_directory docling)
        (source ''url'' ''http://up'') empty_totals)
       = [Convert (FromUrl ''http://up''),
          WriteFile (Path [] [''docling'', ''output'', ''urls'', ''web_content.md'']) ''# text'']
   \<and> tool pymupdf = Pymupdf
   \<and> dispatch pymupdf (source ''url'' ''http://up'') = None
   \<and> sc_type (source ''folder'' ''docs'') = Some ''folder''
   \<and> dispatch pymupdf (source ''folder'' ''docs'') = Some FolderSource
   \<and> sc_type (source ''file'' ''docs/a.pdf'') = Some ''file''
   \<and> dispatch pymupdf (source ''file'' ''docs/a.pdf'') = Some FileSource"
proof -
  let ?url = "source ''url'' ''http://up''" and ?out = "setup_output_directory docling"
  have u: "sc_type ?url = Some ''url''"
    by (simp add: source_def)
  have t: "tool docling \<noteq> Pymupdf" and t': "tool pymupdf = Pymupdf"
    by (simp_all add: docling_def pymupdf_def)
  have fo: "sc_type (source ''folder'' ''docs'') = Some ''folder''"
    and fi: "sc_type (source ''file'' ''docs/a.pdf'') = Some ''file''"
    by (simp_all add: source_def)
  from source_kinds_dispatched [of ?url docling example_world ?out empty_totals] u t
  have a: "dispatch docling ?url = Some UrlSource"
    and b: "trace (source_step docling example_world ?out ?url empty_totals)
              = trace empty_totals @ snd (process_url_source docling example_world ?url ?out)"
    by blast+
  have "snd (process_url_source docling example_world ?url ?out)
          = [Convert (FromUrl ''http://up''),
             WriteFile (Path [] [''docling'', ''output'', ''urls'', ''web_content.md'']) ''# text'']"
    by (simp add: run_eval example_eval path_eval)
  with b have b': "trace (source_step docling example_world ?out ?url empty_totals)
       = [Convert (FromUrl ''http://up''),
          WriteFile (Path [] [''docling'', ''output'', ''urls'', ''web_content.md'']) ''# text'']"
    by (simp add: empty_totals_def)
  from source_kinds_dispatched [of ?url pymupdf] u t'
  have c: "dispatch pymupdf ?url = None"
    by blast
  from source_kinds_dispatched [of "source ''folder'' ''docs''" pymupdf] fo
  have d: "dispatch pymupdf (source ''folder'' ''docs'') = Some FolderSource"
    by blast
  from source_kinds_dispatched [of "source ''file'' ''docs/a.pdf''" pymupdf] fi
  have e: "dispatch pymupdf (source ''file'' ''docs/a.pdf'') = Some FileSource"
    by blast
  from u t a b' t' c fo d fi e show ?thesis
    by blast
qed


subsection \<open>The output layout\<close>

lemma setup_output_directory_root: "setup_output_directory s = output_root (tool s)"
  by (cases "tool s")
     (simp_all add: setup_output_directory_def output_root_def OUTPUT_DIR_NAME_def tool_dir_def
        path_eval)

lemma extension_layout: "extension s = layout_ext s"
  by (simp add: extension_def layout_ext_def)

lemma parse_single_files: "parse_path ''single_files'' = Path [] [''single_files'']"
  by (simp add: path_eval)

lemma parse_urls: "parse_path ''urls'' = Path [] [''urls'']"
  by (simp add: path_eval)

lemma parse_path_segments: "parse_path nm = Path (path_root nm) (name_segments nm)"
  by (simp add: parse_path_def name_segments_def)

lemma relative_name_root: "relative_name nm \<Longrightarrow> path_root nm = []"
  by (cases nm) (auto simp add: relative_name_def path_root_def)

lemma absolute_name_root: "\<not> relative_name nm \<Longrightarrow> path_root nm \<noteq> []"
  by (cases nm) (auto simp add: relative_name_def path_root_def)

lemma relative_name_ext: "relative_name nm \<Longrightarrow> relative_name (nm @ layout_ext s)"
  by (cases nm) (auto simp add: relative_name_def layout_ext_def)

lemma join_relative_name:
  "relative_name nm \<Longrightarrow> joinpath (Path [] ps) (parse_path nm) = Path [] (ps @ name_segments nm)"
  by (simp add: joinpath_def parse_path_segments relative_name_root)

lemma with_suffix_relative:
  "with_suffix (Path [] relative) ext = Some p \<Longrightarrow> p = Path [] (replace_extension relative ext)"
  by (auto simp add: with_suffix_def replace_extension_def name_def split: if_splits)

lemma folder_output_path:
  assumes "relative_name nm" and "with_suffix (Path [] relative) ext = Some p"
  shows "joinpath (joinpath (output_root t) (parse_path nm)) p
           = Path [] ([tool_dir t, ''output''] @ name_segments nm @ replace_extension relative ext)"
proof -
  from assms(2) have "p = Path [] (replace_extension relative ext)"
    by (rule with_suffix_relative)
  moreover from assms(1)
  have "joinpath (output_root t) (parse_path nm) = Path [] ([tool_dir t, ''output''] @ name_segments nm)"
    unfolding output_root_def by (rule join_relative_name)
  ultimately show ?thesis
    by (simp add: joinpath_def)
qed

lemma folder_step_written:
  "relative_name nm \<Longrightarrow>
     written_paths (calls (folder_step s w fp (setup_output_directory s) nm e st))
       = written_paths (calls st)
         @ (if entry_converted s w fp (setup_output_directory s) nm e
            then [layout_folder s nm (rel e)] else [])"
  by (auto simp add: folder_step_def entry_converted_def empty_tally_def layout_folder_def
        Let_def written_paths_append setup_output_directory_root extension_layout
        folder_output_path
        split: option.split)

lemma folder_step_converted:
  "converted_count (folder_step s w fp out nm e st)
     = converted_count st + (if entry_converted s w fp out nm e then 1 else 0)"
  by (simp add: folder_step_def entry_converted_def empty_tally_def Let_def
        split: option.split)

lemma folder_loop_written:
  "relative_name nm \<Longrightarrow>
     written_paths (calls (folder_loop s w fp (setup_output_directory s) nm es st))
       = written_paths (calls st)
         @ map (\<lambda>e. layout_folder s nm (rel e))
             (filter (entry_converted s w fp (setup_output_directory s) nm) es)"
  by (induction es arbitrary: st) (simp_all add: folder_step_written)

lemma folder_loop_converted:
  "converted_count (folder_loop s w fp out nm es st)
     = converted_count st + length (filter (entry_converted s w fp out nm) es)"
  by (induction es arbitrary: st) (simp_all add: folder_step_converted)

lemma process_file_source_written:
  "relative_name (file_name cfg) \<Longrightarrow>
   fst (process_file_source s w cfg (setup_output_directory s)) = (1, 0, 0) \<Longrightarrow>
     written_paths (snd (process_file_source s w cfg (setup_output_directory s)))
       = [layout_single_file s (file_name cfg)]"
  using join_relative_name [OF relative_name_ext, of "file_name cfg"
          "[tool_dir (tool s), ''output'', ''single_files'']" s]
  by (auto simp add: process_file_source_def layout_single_file_def file_name_def Let_def
        setup_output_directory_root output_root_def extension_layout parse_single_files
        joinpath_def split: option.splits if_splits)

lemma process_url_source_written:
  "relative_name (url_name cfg) \<Longrightarrow>
   fst (process_url_source s w cfg (setup_output_directory s)) = (1, 0, 0) \<Longrightarrow>
     written_paths (snd (process_url_source s w cfg (setup_output_directory s)))
       = [layout_url s (url_name cfg)]"
  using join_relative_name [OF relative_name_ext, of "url_name cfg"
          "[tool_dir (tool s), ''output'', ''urls'']" s]
  by (auto simp add: process_url_source_def layout_url_def url_name_def Let_def
        setup_output_directory_root output_root_def extension_layout parse_urls
        joinpath_def split: option.splits if_splits)

lemma layout_below_output_root:
  "anchor (layout_folder s nm relative) = []
   \<and> take 2 (parts (layout_folder s nm relative)) = [tool_dir (tool s), ''output'']
   \<and> anchor (layout_single_file s nm) = []
   \<and> take 3 (parts (layout_single_file s nm)) = [tool_dir (tool s), ''output'', ''single_files'']
   \<and> anchor (layout_url s nm) = []
   \<and> take 3 (parts (layout_url s nm)) = [tool_dir (tool s), ''output'', ''urls'']"
  by (simp add: layout_folder_def layout_single_file_def layout_url_def)

text \<open>
  C6, as stated, fails in two ways. In the marker script with \<^verbatim>\<open>OUTPUT_FORMAT = "json"\<close>
  the converted single file \<^verbatim>\<open>docs/a.pdf\<close> is written to
  \<^verbatim>\<open>marker/output/single_files/a.json\<close>, not to \<^verbatim>\<open>marker/output/single_files/a.md\<close>. In
  every script a source name that is an absolute path replaces the output directory in the
  join: the docling script writes the single file named \<^verbatim>\<open>/tmp/evil\<close> to
  \<^verbatim>\<open>/tmp/evil.md\<close>, and the folder source named \<^verbatim>\<open>/tmp/evil\<close> writes below
  \<^verbatim>\<open>/tmp/evil\<close>, not below \<^verbatim>\<open>docling/output\<close>.
\<close>

theorem output_outside_claimed_layout:
  "fst (process_file_source marker_json example_world (source ''file'' ''docs/a.pdf'')
          (setup_output_directory marker_json)) = (1, 0, 0)
   \<and> file_name (source ''file'' ''docs/a.pdf'') = ''a''
   \<and> written_paths (snd (process_file_source marker_json example_world
          (source ''file'' ''docs/a.pdf'') (setup_output_directory marker_json)))
       = [Path [] [''marker'', ''output'', ''single_files'', ''a.json'']]
   \<and> Path [] [''marker'', ''output'', ''single_files'', ''a.json'']
       \<noteq> Path [] [''marker'', ''output'', ''single_files'', ''a.md'']
   \<and> fst (process_file_source docling example_world
          (named_source ''file'' ''docs/a.pdf'' ''/tmp/evil'')
          (setup_output_directory docling)) = (1, 0, 0)
   \<and> written_paths (snd (process_file_source docling example_world
          (named_source ''file'' ''docs/a.pdf'' ''/tmp/evil'')
          (setup_output_directory docling)))
       = [Path ''/'' [''tmp'', ''evil.md'']]
   \<and> written_paths (snd (process_folder_source docling example_world
          (named_source ''folder'' ''docs'' ''/tmp/evil'')
          (setup_output_directory docling)))
       = [Path ''/'' [''tmp'', ''evil'', ''a.md''],
          Path ''/'' [''tmp'', ''evil'', ''sub'', ''b.md'']]"
proof -
  have folder: "written_paths (snd (process_folder_source docling example_world
          (named_source ''folder'' ''docs'' ''/tmp/evil'')
          (setup_output_directory docling)))
       = [Path ''/'' [''tmp'', ''evil'', ''a.md''],
          Path ''/'' [''tmp'', ''evil'', ''sub'', ''b.md'']]"
    by (simp add: process_folder_source_def file_iterator_def folder_name_def run_eval
          example_eval path_eval)
  have "fst (process_file_source marker_json example_world (source ''file'' ''docs/a.pdf'')
          (setup_output_directory marker_json)) = (1, 0, 0)
   \<and> file_name (source ''file'' ''docs/a.pdf'') = ''a''
   \<and> written_paths (snd (process_file_source marker_json example_world
          (source ''file'' ''docs/a.pdf'') (setup_output_directory marker_json)))
       = [Path [] [''marker'', ''output'', ''single_files'', ''a.json'']]"
    by (simp add: run_eval example_eval path_eval file_name_def)
  moreover have "fst (process_file_source docling example_world
          (named_source ''file'' ''docs/a.pdf'' ''/tmp/evil'')
          (setup_output_directory docling)) = (1, 0, 0)
   \<and> written_paths (snd (process_file_source docling example_world
          (named_source ''file'' ''docs/a.pdf'' ''/tmp/evil'')
          (setup_output_directory docling)))
       = [Path ''/'' [''tmp'', ''evil.md'']]"
    by (simp add: run_eval example_eval path_eval)
  ultimately show ?thesis
    using folder by simp
qed

text \<open>
  C6, amended. With the output directory of \<^verbatim>\<open>setup_output_directory\<close> and a source name
  that is a relative path (it does not start with a slash): the files a folder source
  writes are, in order, one for each entry it counts as converted, at
  \<^verbatim>\<open><tool>/output/<source-name>/<relative-path>\<close> with the extension replaced; a converted
  single-file source writes one file, at \<^verbatim>\<open><tool>/output/single_files/<name><ext>\<close>; a
  converted URL source writes one file, at \<^verbatim>\<open><tool>/output/urls/<name><ext>\<close>. The
  extension is \<^verbatim>\<open>.md\<close>, and in the marker script \<^verbatim>\<open>.<OUTPUT_FORMAT>\<close> when
  \<^verbatim>\<open>OUTPUT_FORMAT\<close> is not \<^verbatim>\<open>markdown\<close>, for all three kinds of source.
\<close>

theorem output_paths_follow_layout:
  "(path_exists w (parse_path (sc_path cfg)) \<and> relative_name (folder_name cfg) \<longrightarrow>
      written_paths (snd (process_folder_source s w cfg (setup_output_directory s)))
        = map (\<lambda>e. layout_folder s (folder_name cfg) (rel e))
            (filter (entry_converted s w (parse_path (sc_path cfg)) (setup_output_directory s)
                       (folder_name cfg))
               (file_iterator w cfg))
      \<and> fst (fst (process_folder_source s w cfg (setup_output_directory s)))
          = length (filter (entry_converted s w (parse_path (sc_path cfg))
                              (setup_output_directory s) (folder_name cfg))
                      (file_iterator w cfg)))
   \<and> (fst (process_file_source s w cfg (setup_output_directory s)) = (1, 0, 0)
        \<and> relative_name (file_name cfg) \<longrightarrow>
        written_paths (snd (process_file_source s w cfg (setup_output_directory s)))
          = [layout_single_file s (file_name cfg)])
   \<and> (fst (process_url_source s w cfg (setup_output_directory s)) = (1, 0, 0)
        \<and> relative_name (url_name cfg) \<longrightarrow>
        written_paths (snd (process_url_source s w cfg (setup_output_directory s)))
          = [layout_url s (url_name cfg)])"
proof (intro conjI impI)
  assume h: "path_exists w (parse_path (sc_path cfg)) \<and> relative_name (folder_name cfg)"
  then show "written_paths (snd (process_folder_source s w cfg (setup_output_directory s)))
        = map (\<lambda>e. layout_folder s (folder_name cfg) (rel e))
            (filter (entry_converted s w (parse_path (sc_path cfg)) (setup_output_directory s)
                       (folder_name cfg))
               (file_iterator w cfg))"
    by (simp add: process_folder_source_calls folder_loop_written empty_tally_def)
  from h show "fst (fst (process_folder_source s w cfg (setup_output_directory s)))
          = length (filter (entry_converted s w (parse_path (sc_path cfg))
                              (setup_output_directory s) (folder_name cfg))
                      (file_iterator w cfg))"
    by (simp add: process_folder_source_counts tally_counts_def folder_loop_converted
          empty_tally_def)
next
  assume "fst (process_file_source s w cfg (setup_output_directory s)) = (1, 0, 0)
        \<and> relative_name (file_name cfg)"
  then show "written_paths (snd (process_file_source s w cfg (setup_output_directory s)))
          = [layout_single_file s (file_name cfg)]"
    by (simp add: process_file_source_written)
next
  assume "fst (process_url_source s w cfg (setup_output_directory s)) = (1, 0, 0)
        \<and> relative_name (url_name cfg)"
  then show "written_paths (snd (process_url_source s w cfg (setup_output_directory s)))
          = [layout_url s (url_name cfg)]"
    by (simp add: process_url_source_written)
qed

lemma example_converted:
  "filter (entry_converted docling example_world (Path [] [''docs''])
             (setup_output_directory docling) ''docs'') example_entries
     = [\<lparr>rel = [''a.pdf''], is_file = True, st_size = 1000\<rparr>,
        \<lparr>rel = [''sub'', ''b.PDF''], is_file = True, st_size = 2000\<rparr>]"
  by (simp add: entry_converted_def run_eval example_eval path_eval empty_tally_def)

theorem output_paths_follow_layout_witness:
  "path_exists example_world (parse_path (sc_path (source ''folder'' ''docs'')))
   \<and> relative_name (folder_name (source ''folder'' ''docs''))
   \<and> written_paths (snd (process_folder_source docling example_world
        (source ''folder'' ''docs'') (setup_output_directory docling)))
       = [Path [] [''docling'', ''output'', ''docs'', ''a.md''],
          Path [] [''docling'', ''output'', ''docs'', ''sub'', ''b.md'']]
   \<and> fst (fst (process_folder_source docling example_world
        (source ''folder'' ''docs'') (setup_output_directory docling))) = 2
   \<and> fst (process_file_source marker_json example_world (source ''file'' ''docs/a.pdf'')
        (setup_output_directory marker_json)) = (1, 0, 0)
   \<and> relative_name (file_name (source ''file'' ''docs/a.pdf''))
   \<and> written_paths (snd (process_file_source marker_json example_world
        (source ''file'' ''docs/a.pdf'') (setup_output_directory marker_json)))
       = [Path [] [''marker'', ''output'', ''single_files'', ''a.json'']]
   \<and> fst (process_url_source docling example_world (source ''url'' ''http://up'')
        (setup_output_directory docling)) = (1, 0, 0)
   \<and> relative_name (url_name (source ''url'' ''http://up''))
   \<and> written_paths (snd (process_url_source docling example_world
        (source ''url'' ''http://up'') (setup_output_directory docling)))
       = [Path [] [''docling'', ''output'', ''urls'', ''web_content.md'']]"
proof -
  let ?folder = "source ''folder'' ''docs''" and ?file = "source ''file'' ''docs/a.pdf''"
  let ?url = "source ''url'' ''http://up''"
  have h1: "path_exists example_world (parse_path (sc_path ?folder))"
    by (simp add: example_docs example_exists)
  have r1: "relative_name (folder_name ?folder)"
    by (simp add: example_folder_name relative_name_def)
  have h2: "fst (process_file_source marker_json example_world ?file
                   (setup_output_directory marker_json)) = (1, 0, 0)"
    by (simp add: run_eval example_eval path_eval)
  have r2: "relative_name (file_name ?file)"
    by (simp add: file_name_def source_def path_eval relative_name_def)
  have h3: "fst (process_url_source docling example_world ?url
                   (setup_output_directory docling)) = (1, 0, 0)"
    by (simp add: run_eval example_eval path_eval)
  have r3: "relative_name (url_name ?url)"
    by (simp add: url_name_def source_def relative_name_def)
  from output_paths_follow_layout [of example_world ?folder docling] h1 r1
  have a: "written_paths (snd (process_folder_source docling example_world ?folder
              (setup_output_directory docling)))
        = map (\<lambda>e. layout_folder docling (folder_name ?folder) (rel e))
            (filter (entry_converted docling example_world (parse_path (sc_path ?folder))
                       (setup_output_directory docling) (folder_name ?folder))
               (file_iterator example_world ?folder))"
    and b: "fst (fst (process_folder_source docling example_world ?folder
              (setup_output_directory docling)))
        = length (filter (entry_converted docling example_world (parse_path (sc_path ?folder))
                       (setup_output_directory docling) (folder_name ?folder))
               (file_iterator example_world ?folder))"
    by blast+
  have a': "written_paths (snd (process_folder_source docling example_world ?folder
              (setup_output_directory docling)))
       = [Path [] [''docling'', ''output'', ''docs'', ''a.md''],
          Path [] [''docling'', ''output'', ''docs'', ''sub'', ''b.md'']]"
    unfolding a example_docs example_folder_name example_iterator example_converted
    by (simp add: layout_folder_def name_segments_def replace_extension_def layout_ext_def
          tool_dir_def docling_def path_eval)
  have b': "fst (fst (process_folder_source docling example_world ?folder
              (setup_output_directory docling))) = 2"
    unfolding b example_docs example_folder_name example_iterator example_converted
    by simp
  from output_paths_follow_layout [of example_world ?file marker_json] h2 r2
  have c: "written_paths (snd (process_file_source marker_json example_world ?file
              (setup_output_directory marker_json)))
        = [layout_single_file marker_json (file_name ?file)]"
    by blast
  have c': "written_paths (snd (process_file_source marker_json example_world ?file
              (setup_output_directory marker_json)))
        = [Path [] [''marker'', ''output'', ''single_files'', ''a.json'']]"
    unfolding c
    by (simp add: layout_single_file_def file_name_def name_segments_def layout_ext_def
          tool_dir_def marker_json_def source_def path_eval)
  from output_paths_follow_layout [of example_world ?url docling] h3 r3
  have d: "written_paths (snd (process_url_source docling example_world ?url
              (setup_output_directory docling)))
        = [layout_url docling (url_name ?url)]"
    by blast
  have d': "written_paths (snd (process_url_source docling example_world ?url
              (setup_output_directory docling)))
        = [Path [] [''docling'', ''output'', ''urls'', ''web_content.md'']]"
    unfolding d
    by (simp add: layout_url_def url_name_def name_segments_def layout_ext_def
          tool_dir_def docling_def source_def path_eval)
  from h1 r1 a' b' h2 r2 c' h3 r3 d' show ?thesis
    by blast
qed

subsection \<open>Exceptions of a conversion\<close>

lemma folder_step_exc_caught:
  "entry_conversion_raises s w cls fp e x \<Longrightarrow> except_Exception x \<Longrightarrow>
     folder_step_exc s w cls fp out nm e st
       = Returns (st\<lparr>failed_count := failed_count st + 1,
                     calls := calls st @ [SizeCheck (entry_path fp e),
                                          Convert (FromPath (entry_path fp e))]\<rparr>)"
  by (auto simp add: folder_step_exc_def entry_conversion_raises_def eligible_def
        entry_path_def Let_def not_less)

lemma folder_step_exc_escapes:
  "entry_conversion_raises s w cls fp e x \<Longrightarrow> \<not> except_Exception x \<Longrightarrow>
     folder_step_exc s w cls fp out nm e st = Propagates x"
  by (auto simp add: folder_step_exc_def entry_conversion_raises_def eligible_def
        entry_path_def Let_def not_less)

lemma process_file_source_exc_caught:
  "file_conversion_raises s w cls src x \<Longrightarrow> except_Exception x \<Longrightarrow>
     process_file_source_exc s w cls src out
       = Returns ((0, 1, 0),
                  [SizeCheck (parse_path (sc_path src)),
                   Convert (file_arg s (parse_path (sc_path src)))])"
  by (auto simp add: file_conversion_raises_def process_file_source_exc_def Let_def not_less
        split: option.splits)

lemma process_file_source_exc_escapes:
  "file_conversion_raises s w cls src x \<Longrightarrow> \<not> except_Exception x \<Longrightarrow>
     process_file_source_exc s w cls src out = Propagates x"
  by (auto simp add: file_conversion_raises_def process_file_source_exc_def Let_def not_less
        split: option.splits)

lemma process_url_source_exc_caught:
  "url_conversion_raises s w cls src x \<Longrightarrow> except_Exception x \<Longrightarrow>
     process_url_source_exc s w cls src out
       = Returns ((0, 1, 0), [Convert (FromUrl (sc_path src))])"
  by (auto simp add: url_conversion_raises_def process_url_source_exc_def Let_def)

lemma process_url_source_exc_escapes:
  "url_conversion_raises s w cls src x \<Longrightarrow> \<not> except_Exception x \<Longrightarrow>
     process_url_source_exc s w cls src out = Propagates x"
  by (auto simp add: url_conversion_raises_def process_url_source_exc_def Let_def)

lemma dispatch_file_raises:
  "file_conversion_raises s w cls src x \<Longrightarrow> dispatch s src = Some FileSource"
  by (simp add: file_conversion_raises_def dispatch_def)

lemma dispatch_url_raises:
  "url_conversion_raises s w cls src x \<Longrightarrow> dispatch s src = Some UrlSource"
  by (simp add: url_conversion_raises_def dispatch_def)

lemma source_step_exc_file_caught:
  "file_conversion_raises s w cls src x \<Longrightarrow> except_Exception x \<Longrightarrow>
     source_step_exc s w cls out src tot
       = Returns (tot\<lparr>total_failed := total_failed tot + 1,
                      trace := trace tot @ [SizeCheck (parse_path (sc_path src)),
                                            Convert (file_arg s (parse_path (sc_path src)))]\<rparr>)"
  by (simp add: source_step_exc_def process_source_exc_def dispatch_file_raises
        process_file_source_exc_caught)

lemma source_step_exc_url_caught:
  "url_conversion_raises s w cls src x \<Longrightarrow> except_Exception x \<Longrightarrow>
     source_step_exc s w cls out src tot
       = Returns (tot\<lparr>total_failed := total_failed tot + 1,
                      trace := trace tot @ [Convert (FromUrl (sc_path src))]\<rparr>)"
  by (simp add: source_step_exc_def process_source_exc_def dispatch_url_raises
        process_url_source_exc_caught)

lemma source_step_exc_escapes:
  assumes "file_conversion_raises s w cls src x \<or> url_conversion_raises s w cls src x"
      and "\<not> except_Exception x"
  shows "source_step_exc s w cls out src tot = Propagates x"
  using assms(1)
proof
  assume "file_conversion_raises s w cls src x"
  with assms(2) show ?thesis
    by (simp add: source_step_exc_def process_source_exc_def dispatch_file_raises
          process_file_source_exc_escapes)
next
  assume "url_conversion_raises s w cls src x"
  with assms(2) show ?thesis
    by (simp add: source_step_exc_def process_source_exc_def dispatch_url_raises
          process_url_source_exc_escapes)
qed

subsection \<open>Runs in which the handler catches every raise\<close>

text \<open>
  When every raise of a conversion call is an instance of \<^verbatim>\<open>Exception\<close>, no exception
  leaves a function, and the functions with the class of the raise return what the
  functions of the first part return.
\<close>

lemma folder_step_exc_agrees:
  "handler_catches_all w cls \<Longrightarrow>
     folder_step_exc s w cls fp out nm e st = Returns (folder_step s w fp out nm e st)"
  by (simp add: handler_catches_all_def folder_step_exc_def folder_step_def Let_def
        split: option.split)

lemma folder_loop_exc_agrees:
  "handler_catches_all w cls \<Longrightarrow>
     folder_loop_exc s w cls fp out nm es st = Returns (folder_loop s w fp out nm es st)"
  by (induction es arbitrary: st) (simp_all add: folder_step_exc_agrees)

lemma process_folder_source_exc_agrees:
  "handler_catches_all w cls \<Longrightarrow>
     process_folder_source_exc s w cls cfg out = Returns (process_folder_source s w cfg out)"
  by (simp add: process_folder_source_exc_def process_folder_source_def Let_def
        folder_loop_exc_agrees)

lemma process_file_source_exc_agrees:
  "handler_catches_all w cls \<Longrightarrow>
     process_file_source_exc s w cls cfg out = Returns (process_file_source s w cfg out)"
  by (simp add: handler_catches_all_def process_file_source_exc_def process_file_source_def
        Let_def split: option.split)

lemma process_url_source_exc_agrees:
  "handler_catches_all w cls \<Longrightarrow>
     process_url_source_exc s w cls cfg out = Returns (process_url_source s w cfg out)"
  by (simp add: handler_catches_all_def process_url_source_exc_def process_url_source_def
        Let_def split: option.split)

lemma source_step_exc_agrees:
  "handler_catches_all w cls \<Longrightarrow>
     source_step_exc s w cls out cfg tot = Returns (source_step s w out cfg tot)"
  by (simp add: source_step_exc_def source_step_def process_source_exc_def process_source_def
        process_folder_source_exc_agrees process_file_source_exc_agrees
        process_url_source_exc_agrees
        split: option.split source_kind.split prod.split)

lemma sources_loop_exc_agrees:
  "handler_catches_all w cls \<Longrightarrow>
     sources_loop_exc s w cls out srcs tot = Returns (sources_loop s w out srcs tot)"
  by (induction srcs arbitrary: tot) (simp_all add: source_step_exc_agrees)

lemma convert_from_sources_exc_agrees:
  "handler_catches_all w cls \<Longrightarrow>
     convert_from_sources_exc s w cls srcs out = Returns (convert_from_sources s w srcs out)"
  by (simp add: convert_from_sources_exc_def convert_from_sources_def Let_def
        sources_loop_exc_agrees)

lemma main_exc_agrees:
  "handler_catches_all w cls \<Longrightarrow> main_exc s w cls srcs = Returns (main s w srcs)"
  by (simp add: main_exc_def main_def Let_def convert_from_sources_exc_agrees
        split: prod.split)

lemma caught_entry_counts:
  assumes "handler_catches_all w cls" and "entry_conversion_raises s w cls fp e x"
  shows "tally_counts (folder_step s w fp out nm e empty_tally) = (0, 1, 0)"
proof -
  from assms have "convert w (FromPath (entry_path fp e)) = None" and "except_Exception x"
    by (auto simp add: entry_conversion_raises_def handler_catches_all_def)
  with assms(2) have "folder_step_exc s w cls fp out nm e empty_tally
      = Returns (empty_tally\<lparr>failed_count := failed_count empty_tally + 1,
                     calls := calls empty_tally @ [SizeCheck (entry_path fp e),
                                          Convert (FromPath (entry_path fp e))]\<rparr>)"
    by (simp add: folder_step_exc_caught)
  with assms(1) show ?thesis
    by (simp add: folder_step_exc_agrees tally_counts_def empty_tally_def)
qed

lemma caught_source_counts:
  assumes "handler_catches_all w cls"
      and "file_conversion_raises s w cls src x \<or> url_conversion_raises s w cls src x"
  shows "(case dispatch s src of
            None \<Rightarrow> (0, 0, 0)
          | Some k \<Rightarrow> fst (process_source s w out k src)) = (0, 1, 0)"
  using assms(2)
proof
  assume h: "file_conversion_raises s w cls src x"
  with assms(1) have "except_Exception x"
    by (auto simp add: file_conversion_raises_def handler_catches_all_def split: option.splits)
  with h have "process_file_source_exc s w cls src out
      = Returns ((0, 1, 0), [SizeCheck (parse_path (sc_path src)),
                             Convert (file_arg s (parse_path (sc_path src)))])"
    by (rule process_file_source_exc_caught)
  with assms(1) have "fst (process_file_source s w src out) = (0, 1, 0)"
    by (simp add: process_file_source_exc_agrees)
  with h show ?thesis
    by (simp add: dispatch_file_raises process_source_def)
next
  assume h: "url_conversion_raises s w cls src x"
  with assms(1) have "except_Exception x"
    by (auto simp add: url_conversion_raises_def handler_catches_all_def)
  with h have "process_url_source_exc s w cls src out
      = Returns ((0, 1, 0), [Convert (FromUrl (sc_path src))])"
    by (rule process_url_source_exc_caught)
  with assms(1) have "fst (process_url_source s w src out) = (0, 1, 0)"
    by (simp add: process_url_source_exc_agrees)
  with h show ?thesis
    by (simp add: dispatch_url_raises process_source_def)
qed

lemmas exc_eval =
  folder_step_exc_def process_folder_source_exc_def process_file_source_exc_def
  process_url_source_exc_def process_source_exc_def source_step_exc_def
  convert_from_sources_exc_def main_exc_def except_Exception_def file_iterator_def
  folder_name_def dispatch_def

text \<open>
  C4, as stated, fails for an exception that is not an instance of \<^verbatim>\<open>Exception\<close>. When
  the conversion of \<^verbatim>\<open>docs/broken.pdf\<close> raises \<^verbatim>\<open>KeyboardInterrupt\<close>, no handler takes it:
  it leaves \<^verbatim>\<open>process_folder_source\<close>, \<^verbatim>\<open>convert_from_sources\<close> and \<^verbatim>\<open>main\<close>. No
  failure is counted, the entries and the source after it are not processed, and the run
  ends without a summary.
\<close>

theorem keyboard_interrupt_aborts_run:
  "entry_conversion_raises docling example_world interrupt_on_broken (Path [] [''docs''])
     broken_pdf KeyboardInterrupt
   \<and> process_folder_source_exc docling example_world interrupt_on_broken
        (source ''folder'' ''docs'') (setup_output_directory docling)
       = Propagates KeyboardInterrupt
   \<and> convert_from_sources_exc docling example_world interrupt_on_broken
        [source ''folder'' ''docs'', source ''file'' ''docs/a.pdf'']
        (setup_output_directory docling)
       = Propagates KeyboardInterrupt
   \<and> main_exc docling example_world interrupt_on_broken
        [source ''folder'' ''docs'', source ''file'' ''docs/a.pdf'']
       = Propagates KeyboardInterrupt"
proof -
  have r: "entry_conversion_raises docling example_world interrupt_on_broken
             (Path [] [''docs'']) broken_pdf KeyboardInterrupt"
    by (simp add: entry_conversion_raises_def eligible_def example_eval path_eval
          SUPPORTED_EXTENSIONS_def within_limit_iff)
  have f: "process_folder_source_exc docling example_world interrupt_on_broken
        (source ''folder'' ''docs'') (setup_output_directory docling)
       = Propagates KeyboardInterrupt"
    by (simp add: exc_eval run_eval example_eval path_eval)
  have d: "dispatch docling (source ''folder'' ''docs'') = Some FolderSource"
    by (simp add: dispatch_def source_def)
  have c: "convert_from_sources_exc docling example_world interrupt_on_broken
        [source ''folder'' ''docs'', source ''file'' ''docs/a.pdf'']
        (setup_output_directory docling)
       = Propagates KeyboardInterrupt"
    by (simp add: convert_from_sources_exc_def source_step_exc_def process_source_exc_def d f)
  have "[source ''folder'' ''docs'', source ''file'' ''docs/a.pdf''] \<noteq> []"
    and "converter_ok example_world"
    by (simp_all add: example_eval)
  with c have "main_exc docling example_world interrupt_on_broken
        [source ''folder'' ''docs'', source ''file'' ''docs/a.pdf'']
       = Propagates KeyboardInterrupt"
    by (simp add: main_exc_def Let_def)
  with r f c show ?thesis
    by blast
qed

text \<open>
  C4, amended. An item whose conversion call raises an instance of \<^verbatim>\<open>Exception\<close> is
  caught at that item: a yielded file adds one to the failed counter of the loop, leaves
  the converted and skipped counters as they were, and the loop goes on with the next
  entry; a single-file or URL source returns (0,1,0), adds one to the failed total, and
  the loop over the sources goes on with the next source. In a run whose raises are all
  instances of \<^verbatim>\<open>Exception\<close> the counts of a folder source are those of the entries
  before the item, plus (0,1,0), plus those of the entries after it, and the totals of the
  run are those of the sources before, plus (0,1,0), plus those of the sources after. A
  raise of another class (\<^verbatim>\<open>SystemExit\<close>, \<^verbatim>\<open>KeyboardInterrupt\<close>, \<^verbatim>\<open>GeneratorExit\<close>) is
  not caught: it leaves the loop and ends the run.
\<close>

theorem caught_exception_is_one_failure:
  "(entry_conversion_raises s w cls fp e x \<and> except_Exception x \<longrightarrow>
      folder_step_exc s w cls fp out nm e st
        = Returns (st\<lparr>failed_count := failed_count st + 1,
                      calls := calls st @ [SizeCheck (entry_path fp e),
                                           Convert (FromPath (entry_path fp e))]\<rparr>)
      \<and> folder_loop_exc s w cls fp out nm (e # post) st
          = folder_loop_exc s w cls fp out nm post
              (st\<lparr>failed_count := failed_count st + 1,
                  calls := calls st @ [SizeCheck (entry_path fp e),
                                       Convert (FromPath (entry_path fp e))]\<rparr>))
   \<and> (file_conversion_raises s w cls src x \<and> except_Exception x \<longrightarrow>
      process_file_source_exc s w cls src out
        = Returns ((0, 1, 0),
                   [SizeCheck (parse_path (sc_path src)),
                    Convert (file_arg s (parse_path (sc_path src)))])
      \<and> sources_loop_exc s w cls out (src # rest) tot
          = sources_loop_exc s w cls out rest
              (tot\<lparr>total_failed := total_failed tot + 1,
                   trace := trace tot @ [SizeCheck (parse_path (sc_path src)),
                                         Convert (file_arg s (parse_path (sc_path src)))]\<rparr>))
   \<and> (url_conversion_raises s w cls src x \<and> except_Exception x \<longrightarrow>
      process_url_source_exc s w cls src out
        = Returns ((0, 1, 0), [Convert (FromUrl (sc_path src))])
      \<and> sources_loop_exc s w cls out (src # rest) tot
          = sources_loop_exc s w cls out rest
              (tot\<lparr>total_failed := total_failed tot + 1,
                   trace := trace tot @ [Convert (FromUrl (sc_path src))]\<rparr>))
   \<and> (entry_conversion_raises s w cls fp e x \<and> \<not> except_Exception x \<longrightarrow>
      folder_step_exc s w cls fp out nm e st = Propagates x
      \<and> folder_loop_exc s w cls fp out nm (e # post) st = Propagates x)
   \<and> ((file_conversion_raises s w cls src x \<or> url_conversion_raises s w cls src x)
        \<and> \<not> except_Exception x \<longrightarrow>
      source_step_exc s w cls out src tot = Propagates x
      \<and> sources_loop_exc s w cls out (src # rest) tot = Propagates x)
   \<and> (handler_catches_all w cls
        \<and> path_exists w (parse_path (sc_path cfg))
        \<and> file_iterator w cfg = pre @ e # post
        \<and> entry_conversion_raises s w cls (parse_path (sc_path cfg)) e x \<longrightarrow>
      process_folder_source_exc s w cls cfg out = Returns (process_folder_source s w cfg out)
      \<and> fst (process_folder_source s w cfg out)
          = add_counts
              (add_counts
                 (tally_counts (folder_loop s w (parse_path (sc_path cfg)) out
                                  (folder_name cfg) pre empty_tally))
                 (0, 1, 0))
              (tally_counts (folder_loop s w (parse_path (sc_path cfg)) out
                               (folder_name cfg) post empty_tally)))
   \<and> (handler_catches_all w cls
        \<and> (file_conversion_raises s w cls src x \<or> url_conversion_raises s w cls src x) \<longrightarrow>
      convert_from_sources_exc s w cls (before @ src # after) out
        = Returns (convert_from_sources s w (before @ src # after) out)
      \<and> fst (convert_from_sources s w (before @ src # after) out)
          = add_counts
              (add_counts (fst (convert_from_sources s w before out)) (0, 1, 0))
              (fst (convert_from_sources s w after out)))"
proof (intro conjI impI)
  assume h: "entry_conversion_raises s w cls fp e x \<and> except_Exception x"
  then show step: "folder_step_exc s w cls fp out nm e st
        = Returns (st\<lparr>failed_count := failed_count st + 1,
                      calls := calls st @ [SizeCheck (entry_path fp e),
                                           Convert (FromPath (entry_path fp e))]\<rparr>)"
    by (blast intro: folder_step_exc_caught)
  show "folder_loop_exc s w cls fp out nm (e # post) st
          = folder_loop_exc s w cls fp out nm post
              (st\<lparr>failed_count := failed_count st + 1,
                  calls := calls st @ [SizeCheck (entry_path fp e),
                                       Convert (FromPath (entry_path fp e))]\<rparr>)"
    by (simp add: step)
next
  assume h: "file_conversion_raises s w cls src x \<and> except_Exception x"
  then show "process_file_source_exc s w cls src out
        = Returns ((0, 1, 0),
                   [SizeCheck (parse_path (sc_path src)),
                    Convert (file_arg s (parse_path (sc_path src)))])"
    by (blast intro: process_file_source_exc_caught)
  from h show "sources_loop_exc s w cls out (src # rest) tot
          = sources_loop_exc s w cls out rest
              (tot\<lparr>total_failed := total_failed tot + 1,
                   trace := trace tot @ [SizeCheck (parse_path (sc_path src)),
                                         Convert (file_arg s (parse_path (sc_path src)))]\<rparr>)"
    using source_step_exc_file_caught [of s w cls src x out tot] by simp
next
  assume h: "url_conversion_raises s w cls src x \<and> except_Exception x"
  then show "process_url_source_exc s w cls src out
        = Returns ((0, 1, 0), [Convert (FromUrl (sc_path src))])"
    by (blast intro: process_url_source_exc_caught)
  from h show "sources_loop_exc s w cls out (src # rest) tot
          = sources_loop_exc s w cls out rest
              (tot\<lparr>total_failed := total_failed tot + 1,
                   trace := trace tot @ [Convert (FromUrl (sc_path src))]\<rparr>)"
    using source_step_exc_url_caught [of s w cls src x out tot] by simp
next
  assume h: "entry_conversion_raises s w cls fp e x \<and> \<not> except_Exception x"
  then show step: "folder_step_exc s w cls fp out nm e st = Propagates x"
    by (blast intro: folder_step_exc_escapes)
  show "folder_loop_exc s w cls fp out nm (e # post) st = Propagates x"
    by (simp add: step)
next
  assume h: "(file_conversion_raises s w cls src x \<or> url_conversion_raises s w cls src x)
        \<and> \<not> except_Exception x"
  then show step: "source_step_exc s w cls out src tot = Propagates x"
    by (blast intro: source_step_exc_escapes)
  show "sources_loop_exc s w cls out (src # rest) tot = Propagates x"
    by (simp add: step)
next
  assume h: "handler_catches_all w cls
        \<and> path_exists w (parse_path (sc_path cfg))
        \<and> file_iterator w cfg = pre @ e # post
        \<and> entry_conversion_raises s w cls (parse_path (sc_path cfg)) e x"
  then show "process_folder_source_exc s w cls cfg out
               = Returns (process_folder_source s w cfg out)"
    by (simp add: process_folder_source_exc_agrees)
  from h have "tally_counts (folder_step s w (parse_path (sc_path cfg)) out (folder_name cfg)
                               e empty_tally) = (0, 1, 0)"
    by (blast intro: caught_entry_counts)
  with h show "fst (process_folder_source s w cfg out)
          = add_counts
              (add_counts
                 (tally_counts (folder_loop s w (parse_path (sc_path cfg)) out
                                  (folder_name cfg) pre empty_tally))
                 (0, 1, 0))
              (tally_counts (folder_loop s w (parse_path (sc_path cfg)) out
                               (folder_name cfg) post empty_tally))"
    by (simp add: folder_split_counts)
next
  assume h: "handler_catches_all w cls
        \<and> (file_conversion_raises s w cls src x \<or> url_conversion_raises s w cls src x)"
  then show "convert_from_sources_exc s w cls (before @ src # after) out
        = Returns (convert_from_sources s w (before @ src # after) out)"
    by (simp add: convert_from_sources_exc_agrees)
  from h have "(case dispatch s src of
            None \<Rightarrow> (0, 0, 0)
          | Some k \<Rightarrow> fst (process_source s w out k src)) = (0, 1, 0)"
    by (blast intro: caught_source_counts)
  then show "fst (convert_from_sources s w (before @ src # after) out)
          = add_counts
              (add_counts (fst (convert_from_sources s w before out)) (0, 1, 0))
              (fst (convert_from_sources s w after out))"
    by (simp add: convert_from_sources_split)
qed

theorem caught_exception_is_one_failure_witness:
  "entry_conversion_raises docling example_world only_exceptions (Path [] [''docs''])
     broken_pdf Exception_class
   \<and> except_Exception Exception_class
   \<and> folder_loop_exc docling example_world only_exceptions (Path [] [''docs''])
        (setup_output_directory docling) ''docs''
        (broken_pdf
          # [\<lparr>rel = [''sub'', ''b.PDF''], is_file = True, st_size = 2000\<rparr>, big_pdf, huge_zip])
        empty_tally
       = Returns
           \<lparr>converted_count = 1, failed_count = 1, skipped_count = 1,
            calls = [SizeCheck (Path [] [''docs'', ''broken.pdf'']),
                     Convert (FromPath (Path [] [''docs'', ''broken.pdf''])),
                     SizeCheck (Path [] [''docs'', ''sub'', ''b.PDF'']),
                     Convert (FromPath (Path [] [''docs'', ''sub'', ''b.PDF''])),
                     WriteFile (Path [] [''docling'', ''output'', ''docs'', ''sub'', ''b.md''])
                       ''# text'',
                     SizeCheck (Path [] [''docs'', ''big.pdf''])]\<rparr>
   \<and> url_conversion_raises docling example_world only_exceptions
        (source ''url'' ''http://down'') Exception_class
   \<and> sources_loop_exc docling example_world only_exceptions (setup_output_directory docling)
        (source ''url'' ''http://down'' # [source ''file'' ''docs/big.pdf'']) empty_totals
       = Returns
           \<lparr>total_converted = 0, total_failed = 1, total_skipped = 1,
            trace = [Convert (FromUrl ''http://down''),
                     SizeCheck (Path [] [''docs'', ''big.pdf''])]\<rparr>
   \<and> entry_conversion_raises docling example_world interrupt_on_broken (Path [] [''docs''])
        broken_pdf KeyboardInterrupt
   \<and> \<not> except_Exception KeyboardInterrupt
   \<and> folder_loop_exc docling example_world interrupt_on_broken (Path [] [''docs''])
        (setup_output_directory docling) ''docs''
        (broken_pdf
          # [\<lparr>rel = [''sub'', ''b.PDF''], is_file = True, st_size = 2000\<rparr>, big_pdf, huge_zip])
        empty_tally
       = Propagates KeyboardInterrupt
   \<and> handler_catches_all example_world only_exceptions
   \<and> fst (process_folder_source docling example_world (source ''folder'' ''docs'')
        (setup_output_directory docling)) = (2, 1, 1)
   \<and> fst (convert_from_sources docling example_world
        ([source ''file'' ''docs/a.pdf''] @ source ''url'' ''http://down''
          # [source ''file'' ''docs/big.pdf''])
        (setup_output_directory docling)) = (1, 1, 1)"
proof -
  let ?out = "setup_output_directory docling" and ?docs = "Path [] [''docs'']"
  let ?cfg = "source ''folder'' ''docs''" and ?url = "source ''url'' ''http://down''"
  let ?pre = "[\<lparr>rel = [''a.pdf''], is_file = True, st_size = 1000\<rparr>,
               \<lparr>rel = [''sub''], is_file = False, st_size = 4096\<rparr>]"
  let ?post = "[\<lparr>rel = [''sub'', ''b.PDF''], is_file = True, st_size = 2000\<rparr>, big_pdf, huge_zip]"
  have e1: "entry_conversion_raises docling example_world only_exceptions ?docs broken_pdf
              Exception_class"
    by (simp add: entry_conversion_raises_def eligible_def example_eval path_eval
          SUPPORTED_EXTENSIONS_def within_limit_iff)
  have c1: "except_Exception Exception_class"
    by (simp add: except_Exception_def)
  have e2: "url_conversion_raises docling example_world only_exceptions ?url Exception_class"
    by (simp add: url_conversion_raises_def example_eval)
  have e3: "entry_conversion_raises docling example_world interrupt_on_broken ?docs broken_pdf
              KeyboardInterrupt"
    by (simp add: entry_conversion_raises_def eligible_def example_eval path_eval
          SUPPORTED_EXTENSIONS_def within_limit_iff)
  have c3: "\<not> except_Exception KeyboardInterrupt"
    by (simp add: except_Exception_def)
  have all: "handler_catches_all example_world only_exceptions"
    by (simp add: handler_catches_all_def only_exceptions_def except_Exception_def)
  have ex: "path_exists example_world (parse_path (sc_path ?cfg))"
    by (simp add: example_docs example_exists)
  have it: "file_iterator example_world ?cfg = ?pre @ broken_pdf # ?post"
    by (simp only: example_iterator example_split)
  from e1 have e1': "entry_conversion_raises docling example_world only_exceptions
                       (parse_path (sc_path ?cfg)) broken_pdf Exception_class"
    by (simp add: example_docs)
  \<comment> \<open>the folder loop goes on after the caught exception\<close>
  from caught_exception_is_one_failure
         [where s = docling and w = example_world and cls = only_exceptions and fp = ?docs
            and e = broken_pdf and x = Exception_class and out = ?out and nm = "''docs''"
            and st = empty_tally and post = ?post] e1 c1
  have a: "folder_loop_exc docling example_world only_exceptions ?docs ?out ''docs''
             (broken_pdf # ?post) empty_tally
           = folder_loop_exc docling example_world only_exceptions ?docs ?out ''docs'' ?post
               (empty_tally\<lparr>failed_count := failed_count empty_tally + 1,
                   calls := calls empty_tally @ [SizeCheck (entry_path ?docs broken_pdf),
                                       Convert (FromPath (entry_path ?docs broken_pdf))]\<rparr>)"
    by blast
  have a': "folder_loop_exc docling example_world only_exceptions ?docs ?out ''docs''
             (broken_pdf # ?post) empty_tally
       = Returns
           \<lparr>converted_count = 1, failed_count = 1, skipped_count = 1,
            calls = [SizeCheck (Path [] [''docs'', ''broken.pdf'']),
                     Convert (FromPath (Path [] [''docs'', ''broken.pdf''])),
                     SizeCheck (Path [] [''docs'', ''sub'', ''b.PDF'']),
                     Convert (FromPath (Path [] [''docs'', ''sub'', ''b.PDF''])),
                     WriteFile (Path [] [''docling'', ''output'', ''docs'', ''sub'', ''b.md''])
                       ''# text'',
                     SizeCheck (Path [] [''docs'', ''big.pdf''])]\<rparr>"
    unfolding a
    by (simp add: exc_eval run_eval example_eval path_eval empty_tally_def)
  \<comment> \<open>the loop over the sources goes on after the caught exception\<close>
  from caught_exception_is_one_failure
         [where s = docling and w = example_world and cls = only_exceptions and src = ?url
            and x = Exception_class and out = ?out and tot = empty_totals
            and rest = "[source ''file'' ''docs/big.pdf'']"] e2 c1
  have b: "sources_loop_exc docling example_world only_exceptions ?out
             (?url # [source ''file'' ''docs/big.pdf'']) empty_totals
           = sources_loop_exc docling example_world only_exceptions ?out
               [source ''file'' ''docs/big.pdf'']
               (empty_totals\<lparr>total_failed := total_failed empty_totals + 1,
                   trace := trace empty_totals @ [Convert (FromUrl (sc_path ?url))]\<rparr>)"
    by blast
  have b': "sources_loop_exc docling example_world only_exceptions ?out
             (?url # [source ''file'' ''docs/big.pdf'']) empty_totals
       = Returns
           \<lparr>total_converted = 0, total_failed = 1, total_skipped = 1,
            trace = [Convert (FromUrl ''http://down''),
                     SizeCheck (Path [] [''docs'', ''big.pdf''])]\<rparr>"
    unfolding b
    by (simp add: exc_eval run_eval example_eval path_eval empty_totals_def)
  \<comment> \<open>an interrupt leaves the loop\<close>
  from caught_exception_is_one_failure
         [where s = docling and w = example_world and cls = interrupt_on_broken and fp = ?docs
            and e = broken_pdf and x = KeyboardInterrupt and out = ?out and nm = "''docs''"
            and st = empty_tally and post = ?post] e3 c3
  have c: "folder_loop_exc docling example_world interrupt_on_broken ?docs ?out ''docs''
             (broken_pdf # ?post) empty_tally = Propagates KeyboardInterrupt"
    by blast
  \<comment> \<open>the counts of the whole folder and of the whole run\<close>
  from caught_exception_is_one_failure
         [where s = docling and w = example_world and cls = only_exceptions and cfg = ?cfg
            and e = broken_pdf and x = Exception_class and out = ?out
            and pre = ?pre and post = ?post] all ex it e1'
  have d: "fst (process_folder_source docling example_world ?cfg ?out)
      = add_counts
          (add_counts
             (tally_counts (folder_loop docling example_world (parse_path (sc_path ?cfg)) ?out
                              (folder_name ?cfg) ?pre empty_tally))
             (0, 1, 0))
          (tally_counts (folder_loop docling example_world (parse_path (sc_path ?cfg)) ?out
                           (folder_name ?cfg) ?post empty_tally))"
    by blast
  have d': "fst (process_folder_source docling example_world ?cfg ?out) = (2, 1, 1)"
    unfolding d example_docs example_folder_name example_before_broken example_after_broken
    by (simp add: add_counts_def)
  from caught_exception_is_one_failure
         [where s = docling and w = example_world and cls = only_exceptions and src = ?url
            and x = Exception_class and out = ?out
            and before = "[source ''file'' ''docs/a.pdf'']"
            and after = "[source ''file'' ''docs/big.pdf'']"] all e2
  have f: "fst (convert_from_sources docling example_world
        ([source ''file'' ''docs/a.pdf''] @ ?url # [source ''file'' ''docs/big.pdf'']) ?out)
      = add_counts
          (add_counts
             (fst (convert_from_sources docling example_world [source ''file'' ''docs/a.pdf''] ?out))
             (0, 1, 0))
          (fst (convert_from_sources docling example_world [source ''file'' ''docs/big.pdf''] ?out))"
    by blast
  have g1: "fst (convert_from_sources docling example_world [source ''file'' ''docs/a.pdf''] ?out)
              = (1, 0, 0)"
    by (simp add: convert_from_sources_single dispatch_def process_source_def source_def)
       (simp add: run_eval example_eval path_eval)
  have g2: "fst (convert_from_sources docling example_world [source ''file'' ''docs/big.pdf''] ?out)
              = (0, 0, 1)"
    by (simp add: convert_from_sources_single dispatch_def process_source_def source_def)
       (simp add: run_eval example_eval path_eval)
  have f': "fst (convert_from_sources docling example_world
        ([source ''file'' ''docs/a.pdf''] @ ?url # [source ''file'' ''docs/big.pdf'']) ?out)
      = (1, 1, 1)"
    unfolding f g1 g2 by (simp add: add_counts_def)
  from e1 c1 a' e2 b' e3 c3 c all d' f' show ?thesis
    by blast
qed

end
